theory Spec2Isabelle
  imports Complex_Main
begin

section \<open>Values, messages and exceptions\<close>

text \<open>
  The Python sources are dynamically typed. The checks \<open>isinstance(weight, int)\<close> in
  \<open>get_weight_class\<close> and \<open>isinstance(boxer, Boxer)\<close> in \<open>enter_ring\<close> only make
  sense on values that may be of another type, so the arguments they guard are values
  of \<open>pyval\<close>. A \<open>bool\<close> is an \<open>int\<close> for \<open>isinstance\<close> (with \<open>True = 1\<close>,
  \<open>False = 0\<close>). A float that comes from outside (a reach, the random number) is a
  real number, taken to be a finite double; the floats that the program computes are
  values of \<open>pyfloat\<close> below, rounded as IEEE 754 binary64 arithmetic rounds them.
\<close>

datatype pyval = PyInt int | PyBool bool | PyFloat real | PyStr string | PyNone

text \<open>\<open>type(v).__name__\<close>\<close>

fun type_name :: "pyval \<Rightarrow> string" where
  "type_name (PyInt _) = ''int''"
| "type_name (PyBool _) = ''bool''"
| "type_name (PyFloat _) = ''float''"
| "type_name (PyStr _) = ''str''"
| "type_name PyNone = ''NoneType''"

text \<open>
  An f-string is kept as its fragments: the literal text and the interpolated values,
  in order, without rendering the values.
\<close>

datatype frag = Lit string | Val pyval

type_synonym message = "frag list"

datatype error =
    ValueError message
  | TypeError message
  | RuntimeError message
  | OverflowError message
  | ZeroDivisionError message
  | SqliteError string

section \<open>Python floats: IEEE 754 binary64, round to nearest, ties to even\<close>

text \<open>
  A computed float is a finite double (its value as a real number), an infinity or
  a NaN. The sign of a zero is not kept: nothing in the program tells \<open>-0.0\<close> from
  \<open>0.0\<close> (comparison, addition, \<open>abs\<close>, \<open>x ** 0\<close> and the zero check of division
  treat them alike).
\<close>

datatype pyfloat = Fin real | PInf | NInf | NaN

text \<open>The binary exponent of a positive real: \<open>2 ^ expo x \<le> x < 2 ^ (expo x + 1)\<close>.\<close>

function expo :: "real \<Rightarrow> int" where
  "expo x = (if x \<le> 0 then 0
             else if 2 \<le> x then expo (x / 2) + 1
             else if x < 1 then expo (x * 2) - 1
             else 0)"
  by pat_completeness auto
termination
proof (relation "measure (\<lambda>x. nat \<bar>\<lfloor>log 2 x\<rfloor>\<bar>)")
  show "wf (measure (\<lambda>x. nat \<bar>\<lfloor>log 2 x\<rfloor>\<bar>))" by simp
next
  fix x :: real
  assume a: "\<not> x \<le> 0" "2 \<le> x"
  have "log 2 (x / 2) = log 2 x - 1" using a by (simp add: log_divide)
  moreover have "1 \<le> log 2 x" using a by (simp add: le_log_iff)
  ultimately show "(x / 2, x) \<in> measure (\<lambda>x. nat \<bar>\<lfloor>log 2 x\<rfloor>\<bar>)"
    by (simp add: nat_less_iff)
next
  fix x :: real
  assume a: "\<not> x \<le> 0" "\<not> 2 \<le> x" "x < 1"
  define n where "n = \<lfloor>log 2 x\<rfloor>"
  have "log 2 (x * 2) = log 2 x + 1" using a by (simp add: log_mult)
  then have up: "\<lfloor>log 2 (x * 2)\<rfloor> = n + 1" by (simp add: n_def)
  have "log 2 x < 0" using a by simp
  then have neg: "n \<le> - 1" unfolding n_def by (simp add: floor_le_iff)
  have "nat \<bar>n + 1\<bar> < nat \<bar>n\<bar>" using neg by linarith
  then show "(x * 2, x) \<in> measure (\<lambda>x. nat \<bar>\<lfloor>log 2 x\<rfloor>\<bar>)"
    unfolding in_measure up n_def [symmetric] .
qed

declare expo.simps [simp del]

text \<open>Rounding a real to the nearest integer, a tie going to the even one.\<close>

definition round_even :: "real \<Rightarrow> int" where
  "round_even t =
     (let f = \<lfloor>t\<rfloor>; d = t - of_int f
      in if d < 1 / 2 then f else if 1 / 2 < d then f + 1 else if even f then f else f + 1)"

text \<open>
  The exponent of the last place of the doubles around \<open>x\<close>: 53 significant bits, and
  \<open>2 ^ - 1074\<close> for the subnormal numbers.
\<close>

definition qexp :: "real \<Rightarrow> int" where
  "qexp x = max (expo \<bar>x\<bar> - 52) (- 1074)"

text \<open>The double nearest to \<open>x\<close>, were the exponent range unbounded above.\<close>

definition rd :: "real \<Rightarrow> real" where
  "rd x = of_int (round_even (x / 2 powi qexp x)) * 2 powi qexp x"

text \<open>The rounded result of an operation whose exact value is \<open>x\<close>: overflow gives an infinity.\<close>

definition rnd :: "real \<Rightarrow> pyfloat" where
  "rnd x = (let y = rd x
            in if 2 ^ 1024 \<le> \<bar>y\<bar> then (if 0 < y then PInf else NInf) else Fin y)"

text \<open>
  \<open>float(n)\<close> as the mixed operations \<open>int + float\<close> and \<open>float + int\<close> apply it:
  correctly rounded, \<open>OverflowError\<close> when the integer is beyond the doubles.
\<close>

definition float_of_int :: "int \<Rightarrow> error + pyfloat" where
  "float_of_int n =
     (case rnd (of_int n) of
        Fin y \<Rightarrow> Inr (Fin y)
      | _ \<Rightarrow> Inl (OverflowError [Lit ''int too large to convert to float'']))"

fun fneg :: "pyfloat \<Rightarrow> pyfloat" where
  "fneg (Fin x) = Fin (- x)"
| "fneg PInf = NInf"
| "fneg NInf = PInf"
| "fneg NaN = NaN"

fun fabs :: "pyfloat \<Rightarrow> pyfloat" where
  "fabs (Fin x) = Fin \<bar>x\<bar>"
| "fabs PInf = PInf"
| "fabs NInf = PInf"
| "fabs NaN = NaN"

fun fadd :: "pyfloat \<Rightarrow> pyfloat \<Rightarrow> pyfloat" where
  "fadd (Fin x) (Fin y) = rnd (x + y)"
| "fadd NaN _ = NaN"
| "fadd _ NaN = NaN"
| "fadd PInf NInf = NaN"
| "fadd NInf PInf = NaN"
| "fadd PInf _ = PInf"
| "fadd _ PInf = PInf"
| "fadd NInf _ = NInf"
| "fadd _ NInf = NInf"

definition fsub :: "pyfloat \<Rightarrow> pyfloat \<Rightarrow> pyfloat" where
  "fsub a b = fadd a (fneg b)"

text \<open>\<open>a < b\<close> on floats: false as soon as one side is a NaN.\<close>

fun flt :: "pyfloat \<Rightarrow> pyfloat \<Rightarrow> bool" where
  "flt (Fin x) (Fin y) = (x < y)"
| "flt (Fin _) PInf = True"
| "flt NInf (Fin _) = True"
| "flt NInf PInf = True"
| "flt _ _ = False"

text \<open>\<open>a / b\<close> on floats: Python raises \<open>ZeroDivisionError\<close> on a zero divisor.\<close>

fun fdiv :: "pyfloat \<Rightarrow> pyfloat \<Rightarrow> error + pyfloat" where
  "fdiv a (Fin y) =
     (if y = 0 then Inl (ZeroDivisionError [Lit ''float division by zero''])
      else case a of
             Fin x \<Rightarrow> Inr (rnd (x / y))
           | PInf \<Rightarrow> Inr (if 0 < y then PInf else NInf)
           | NInf \<Rightarrow> Inr (if 0 < y then NInf else PInf)
           | NaN \<Rightarrow> Inr NaN)"
| "fdiv (Fin x) PInf = Inr (Fin 0)"
| "fdiv (Fin x) NInf = Inr (Fin 0)"
| "fdiv _ _ = Inr NaN"

text \<open>The constant \<open>math.e\<close>: the double \<open>0x1.5bf0a8b145769p+1\<close>.\<close>

definition math_e :: real where
  "math_e = 6121026514868073 / 2 ^ 51"

text \<open>
  \<open>math.e ** x\<close>. CPython answers the cases of a zero, NaN or infinite exponent
  itself and hands a finite non-zero exponent to the \<open>pow\<close> of the C library, whose
  \<open>ERANGE\<close> it turns into \<open>OverflowError\<close>. The C library is not code of the
  repository and is not required to round correctly: what it answers, seen from
  Python, is the argument \<open>pw\<close>.
\<close>

definition e_pow :: "(real \<Rightarrow> error + pyfloat) \<Rightarrow> pyfloat \<Rightarrow> error + pyfloat" where
  "e_pow pw x =
     (case x of
        Fin v \<Rightarrow> if v = 0 then Inr (Fin 1) else pw v
      | NaN \<Rightarrow> Inr NaN
      | PInf \<Rightarrow> Inr PInf
      | NInf \<Rightarrow> Inr (Fin 0))"

text \<open>A C library whose \<open>pow\<close> rounds correctly: the one of the sample worlds.\<close>

definition cr_pow :: "real \<Rightarrow> error + pyfloat" where
  "cr_pow x =
     (case rnd (math_e powr x) of
        Fin y \<Rightarrow> Inr (Fin y)
      | _ \<Rightarrow> Inl (OverflowError [Lit ''(34, 'Numerical result out of range')'']))"


section \<open>Weight classes (boxers_model.get_weight_class)\<close>

text \<open>
  \<open>isinstance(weight, int)\<close> together with the integer a value stands for: \<open>None\<close>
  for a value that is not an \<open>int\<close>.
\<close>

fun as_int :: "pyval \<Rightarrow> int option" where
  "as_int (PyInt i) = Some i"
| "as_int (PyBool b) = Some (if b then 1 else 0)"
| "as_int _ = None"

definition get_weight_class :: "pyval \<Rightarrow> error + string" where
  "get_weight_class weight =
     (case as_int weight of
        None \<Rightarrow>
          Inl (ValueError [Lit ''Invalid Weight: '', Val weight,
                           Lit ''. Must be a non-negative integer.''])
      | Some w \<Rightarrow>
          if w < 0 then
            Inl (ValueError [Lit ''Invalid Weight: '', Val weight,
                             Lit ''. Must be a non-negative integer.''])
          else if w \<ge> 203 then Inr ''HEAVYWEIGHT''
          else if w \<ge> 166 then Inr ''MIDDLEWEIGHT''
          else if w \<ge> 133 then Inr ''LIGHTWEIGHT''
          else if w \<ge> 125 then Inr ''FEATHERWEIGHT''
          else
            Inl (ValueError [Lit ''Invalid weight: '', Val weight,
                             Lit ''. Weight must be at least 125.'']))"

text \<open>The order of the four bands, lightest first; any other string has rank 0.\<close>

definition band_rank :: "string \<Rightarrow> nat" where
  "band_rank c =
     (if c = ''HEAVYWEIGHT'' then 3
      else if c = ''MIDDLEWEIGHT'' then 2
      else if c = ''LIGHTWEIGHT'' then 1
      else 0)"

definition is_ValueError :: "error + 'a \<Rightarrow> bool" where
  "is_ValueError r = (case r of Inl (ValueError _) \<Rightarrow> True | _ \<Rightarrow> False)"

definition is_TypeError :: "error + 'a \<Rightarrow> bool" where
  "is_TypeError r = (case r of Inl (TypeError _) \<Rightarrow> True | _ \<Rightarrow> False)"

section \<open>Boxers (boxers_model.Boxer)\<close>

text \<open>
  The dataclass \<open>Boxer\<close>. Its field \<open>id\<close> is \<open>boxer_id\<close> here. The constructor runs
  \<open>__post_init__\<close>, which assigns \<open>weight_class\<close> from \<open>get_weight_class(self.weight)\<close>
  whatever was passed for it, and lets the \<open>ValueError\<close> of \<open>get_weight_class\<close>
  escape; no other field is checked. A constructed boxer's weight is therefore an
  integer, which is the type of the field (the second \<open>None\<close> case below is never
  reached: \<open>get_weight_class\<close> has raised on such a weight).
\<close>

record boxer =
  boxer_id :: int
  name :: string
  weight :: int
  height :: int
  reach :: real
  age :: int
  weight_class :: string

definition Boxer :: "int \<Rightarrow> string \<Rightarrow> pyval \<Rightarrow> int \<Rightarrow> real \<Rightarrow> int \<Rightarrow> error + boxer" where
  "Boxer i n wt h r a =
     (case get_weight_class wt of
        Inl e \<Rightarrow> Inl e
      | Inr wc \<Rightarrow>
          (case as_int wt of
             None \<Rightarrow> Inl (ValueError [Lit ''Invalid Weight: '', Val wt,
                                      Lit ''. Must be a non-negative integer.''])
           | Some w \<Rightarrow>
               Inr \<lparr>boxer_id = i, name = n, weight = w, height = h, reach = r, age = a,
                    weight_class = wc\<rparr>))"


section \<open>The world: ring, boxers table, calls to the outside\<close>

text \<open>
  A row of the table \<open>boxers\<close>. SQLite columns hold values of any type, so the weight
  of a stored row is a \<open>pyval\<close>.
\<close>

record row =
  row_id :: int
  row_name :: string
  row_weight :: pyval
  row_height :: int
  row_reach :: real
  row_age :: int
  fights :: int
  wins :: int

text \<open>
  Calls that leave the process: an HTTP request to random.org (\<open>get_random\<close>) and a
  database connection (\<open>get_db_connection\<close>). They are appended to \<open>trace\<close>.
\<close>

datatype event = RandomOrgRequest | DbConnection

text \<open>
  \<open>ring\<close> is \<open>RingModel.ring\<close>; \<open>boxers\<close> is the table; \<open>db_fault\<close>, when set, is
  the \<open>sqlite3.Error\<close> that \<open>sqlite3.connect\<close> raises; \<open>libm_pow_e x\<close> is what
  \<open>math.e ** x\<close> gives on this machine for a finite non-zero \<open>x\<close>.
\<close>

record world =
  ring :: "boxer list"
  boxers :: "row list"
  db_fault :: "string option"
  trace :: "event list"
  libm_pow_e :: "real \<Rightarrow> error + pyfloat"

text \<open>
  What \<open>requests.get\<close> and \<open>raise_for_status\<close> give: a timeout, another
  \<open>RequestException\<close> with its text, or the stripped body together with what
  \<open>float\<close> makes of it (\<open>None\<close> when \<open>float\<close> raises \<open>ValueError\<close>). The
  values \<open>nan\<close> and \<open>inf\<close>, which \<open>float\<close> reads too, have no real number
  and are left out.
\<close>

datatype http_outcome = HttpTimeout | HttpFailed string | HttpText string "real option"

section \<open>api_utils.get_random\<close>

definition get_random :: "http_outcome \<Rightarrow> world \<Rightarrow> (error + real) \<times> world" where
  "get_random h w =
     (let w1 = w\<lparr>trace := trace w @ [RandomOrgRequest]\<rparr> in
      case h of
        HttpTimeout \<Rightarrow> (Inl (RuntimeError [Lit ''Request to random.org timed out.'']), w1)
      | HttpFailed e \<Rightarrow>
          (Inl (RuntimeError [Lit ''Request to random.org failed: '', Val (PyStr e)]), w1)
      | HttpText random_number_str parsed \<Rightarrow>
          (case parsed of
             None \<Rightarrow>
               (Inl (ValueError [Lit ''Invalid response from random.org: '',
                                 Val (PyStr random_number_str)]), w1)
           | Some random_number \<Rightarrow> (Inr random_number, w1)))"


section \<open>boxers_model: the repository functions\<close>

text \<open>
  An SQLite integer has 64 bits: binding a Python \<open>int\<close> outside that range to a
  statement raises \<open>OverflowError\<close>, which is not an \<open>sqlite3.Error\<close> and leaves the
  function as it is.
\<close>

definition sqlite_int :: "int \<Rightarrow> bool" where
  "sqlite_int i = (- (2 ^ 63) \<le> i \<and> i < 2 ^ 63)"

definition bind_error :: error where
  "bind_error = OverflowError [Lit ''Python int too large to convert to SQLite INTEGER'']"

text \<open>The two \<open>UPDATE\<close> statements of \<open>update_boxer_stats\<close>, on the rows with the id.\<close>

definition update_rows :: "int \<Rightarrow> string \<Rightarrow> row list \<Rightarrow> row list" where
  "update_rows i result rs =
     map (\<lambda>r. if row_id r = i then
                 (if result = ''win'' then r\<lparr>fights := fights r + 1, wins := wins r + 1\<rparr>
                  else r\<lparr>fights := fights r + 1\<rparr>)
               else r) rs"

definition update_boxer_stats :: "int \<Rightarrow> string \<Rightarrow> world \<Rightarrow> (error + unit) \<times> world" where
  "update_boxer_stats i result w =
     (if result \<noteq> ''win'' \<and> result \<noteq> ''loss'' then
        (Inl (ValueError [Lit ''Invalid result: '', Val (PyStr result),
                          Lit ''. Expected 'win' or 'loss'.'']), w)
      else if i < 0 then
        (Inl (ValueError [Lit ''Invalid boxer ID: '', Val (PyInt i),
                          Lit ''. Must be a non-negative integer.'']), w)
      else
        let w1 = w\<lparr>trace := trace w @ [DbConnection]\<rparr> in
        case db_fault w of
          Some m \<Rightarrow> (Inl (SqliteError m), w1)
        | None \<Rightarrow>
            if \<not> sqlite_int i then (Inl bind_error, w1)
            else if find (\<lambda>r. row_id r = i) (boxers w) = None then
              (Inl (ValueError [Lit ''Boxer with ID '', Val (PyInt i), Lit '' not found.'']), w1)
            else (Inr (), w1\<lparr>boxers := update_rows i result (boxers w)\<rparr>))"

text \<open>
  The \<open>INSERT\<close> of \<open>create_boxer\<close> names neither \<open>id\<close> nor the two counters; the
  table's declaration is not among the sources. The new row takes the next id above
  those in use and counters 0.
\<close>

definition next_id :: "row list \<Rightarrow> int" where
  "next_id rs = fold max (map row_id rs) 0 + 1"

definition create_boxer ::
  "string \<Rightarrow> int \<Rightarrow> int \<Rightarrow> real \<Rightarrow> int \<Rightarrow> world \<Rightarrow> (error + unit) \<times> world" where
  "create_boxer n wt h r a w =
     (if wt < 125 then
        (Inl (ValueError [Lit ''Invalid weight: '', Val (PyInt wt),
                          Lit ''. Must be at least 125.'']), w)
      else if h \<le> 0 then
        (Inl (ValueError [Lit ''Invalid height: '', Val (PyInt h),
                          Lit ''. Must be greater than 0.'']), w)
      else if r \<le> 0 then
        (Inl (ValueError [Lit ''Invalid reach: '', Val (PyFloat r),
                          Lit ''. Must be greater than 0.'']), w)
      else if \<not> (18 \<le> a \<and> a \<le> 40) then
        (Inl (ValueError [Lit ''Invalid age: '', Val (PyInt a),
                          Lit ''. Must be between 18 and 40.'']), w)
      else
        let w1 = w\<lparr>trace := trace w @ [DbConnection]\<rparr> in
        case db_fault w of
          Some m \<Rightarrow> (Inl (SqliteError m), w1)
        | None \<Rightarrow>
            if find (\<lambda>x. row_name x = n) (boxers w) \<noteq> None then
              (Inl (ValueError [Lit (''Boxer With name '' @ [CHR 0x27]), Val (PyStr n),
                                Lit (CHR 0x27 # '' already exists'')]), w1)
            else if \<not> sqlite_int wt \<or> \<not> sqlite_int h then (Inl bind_error, w1)
            else
              (Inr (),
               w1\<lparr>boxers := boxers w @
                  [\<lparr>row_id = next_id (boxers w), row_name = n, row_weight = PyInt wt,
                    row_height = h, row_reach = r, row_age = a, fights = 0, wins = 0\<rparr>]\<rparr>))"

text \<open>The \<open>Boxer(...)\<close> call that both lookups make on the row they fetched.\<close>

definition boxer_of_row :: "row \<Rightarrow> error + boxer" where
  "boxer_of_row x =
     Boxer (row_id x) (row_name x) (row_weight x) (row_height x) (row_reach x) (row_age x)"

definition get_boxer_by_id :: "int \<Rightarrow> world \<Rightarrow> (error + boxer) \<times> world" where
  "get_boxer_by_id i w =
     (if i < 0 then
        (Inl (ValueError [Lit ''Invalid boxer ID: '', Val (PyInt i),
                          Lit ''. Must be a non-negative integer.'']), w)
      else
        let w1 = w\<lparr>trace := trace w @ [DbConnection]\<rparr> in
        case db_fault w of
          Some m \<Rightarrow> (Inl (SqliteError m), w1)
        | None \<Rightarrow>
            if \<not> sqlite_int i then (Inl bind_error, w1)
            else
              (case find (\<lambda>r. row_id r = i) (boxers w) of
                 Some x \<Rightarrow> (boxer_of_row x, w1)
               | None \<Rightarrow>
                   (Inl (ValueError [Lit ''Boxer with ID '', Val (PyInt i),
                                     Lit '' not found.'']), w1)))"

definition get_boxer_by_name :: "string \<Rightarrow> world \<Rightarrow> (error + boxer) \<times> world" where
  "get_boxer_by_name n w =
     (if n = [] then
        (Inl (ValueError [Lit ''Invalid boxer name: '', Val (PyStr n),
                          Lit ''. Must be a non-empty string.'']), w)
      else
        let w1 = w\<lparr>trace := trace w @ [DbConnection]\<rparr> in
        case db_fault w of
          Some m \<Rightarrow> (Inl (SqliteError m), w1)
        | None \<Rightarrow>
            (case find (\<lambda>r. row_name r = n) (boxers w) of
               Some x \<Rightarrow> (boxer_of_row x, w1)
             | None \<Rightarrow>
                 (Inl (ValueError [Lit (''Boxer '' @ [CHR 0x27]), Val (PyStr n),
                                   Lit (CHR 0x27 # '' not found.'')]), w1)))"


section \<open>ring_model.RingModel\<close>

text \<open>\<open>RingModel()\<close>: an empty ring.\<close>

definition new_ring :: "world \<Rightarrow> world" where
  "new_ring w = w\<lparr>ring := []\<rparr>"

definition clear_ring :: "world \<Rightarrow> world" where
  "clear_ring w = (if ring w = [] then w else w\<lparr>ring := []\<rparr>)"

text \<open>The argument of \<open>enter_ring\<close>: a \<open>Boxer\<close> or a value of another type.\<close>

datatype ring_arg = ABoxer boxer | NotABoxer pyval

definition enter_ring :: "ring_arg \<Rightarrow> world \<Rightarrow> (error + unit) \<times> world" where
  "enter_ring x w =
     (case x of
        NotABoxer v \<Rightarrow>
          (Inl (TypeError [Lit (''Invalid type: Expected 'Boxer', got '' @ [CHR 0x27]),
                           Val (PyStr (type_name v)), Lit [CHR 0x27]]), w)
      | ABoxer b \<Rightarrow>
          if length (ring w) \<ge> 2 then
            (Inl (ValueError [Lit ''Ring is full, cannot add more boxers.'']), w)
          else (Inr (), w\<lparr>ring := ring w @ [b]\<rparr>))"

definition get_boxers :: "world \<Rightarrow> boxer list" where
  "get_boxers w = ring w"

text \<open>
  \<open>(boxer.weight * len(boxer.name)) + (boxer.reach / 10) + age_modifier\<close>: the
  product is an integer product; the quotient is a float division by \<open>10.0\<close>; the
  first sum converts the integer product to a float, and that conversion is the one
  step that can raise; the second sum adds \<open>float(age_modifier)\<close>, which is exact.
\<close>

definition get_fighting_skill :: "boxer \<Rightarrow> error + pyfloat" where
  "get_fighting_skill b =
     (let age_modifier = (if age b < 25 then - 1 else (if age b > 35 then - 2 else 0)) :: int
      in case fdiv (Fin (reach b)) (Fin 10) of
           Inl e \<Rightarrow> Inl e
         | Inr q \<Rightarrow>
             (case float_of_int (weight b * int (length (name b))) of
                Inl e \<Rightarrow> Inl e
              | Inr f \<Rightarrow> Inr (fadd (fadd f q) (Fin (real_of_int age_modifier)))))"

text \<open>
  The two locals of \<open>fight\<close> that carry the probability, as functions of what they are
  computed from: \<open>delta = abs(skill_1 - skill_2)\<close> and
  \<open>normalized_delta = 1 / (1 + math.e ** (-delta))\<close>.
\<close>

definition delta :: "pyfloat \<Rightarrow> pyfloat \<Rightarrow> pyfloat" where
  "delta skill_1 skill_2 = fabs (fsub skill_1 skill_2)"

definition normalized_delta :: "(real \<Rightarrow> error + pyfloat) \<Rightarrow> pyfloat \<Rightarrow> error + pyfloat" where
  "normalized_delta pw d =
     (case e_pow pw (fneg d) of
        Inl e \<Rightarrow> Inl e
      | Inr y \<Rightarrow> fdiv (Fin 1) (fadd (Fin 1) y))"

text \<open>
  The end of \<open>fight\<close>, from the two stats updates on: an exception of either update
  leaves \<open>fight\<close> at once, before \<open>clear_ring\<close>.
\<close>

definition record_result :: "boxer \<Rightarrow> boxer \<Rightarrow> world \<Rightarrow> (error + string) \<times> world" where
  "record_result winner loser w =
     (case update_boxer_stats (boxer_id winner) ''win'' w of
        (Inl e, w1) \<Rightarrow> (Inl e, w1)
      | (Inr _, w1) \<Rightarrow>
          (case update_boxer_stats (boxer_id loser) ''loss'' w1 of
             (Inl e, w2) \<Rightarrow> (Inl e, w2)
           | (Inr _, w2) \<Rightarrow> (Inr (name winner), clear_ring w2)))"

text \<open>
  \<open>boxer_1, boxer_2 = self.get_boxers()\<close> raises \<open>ValueError\<close> on a list of more than two
  elements. The skills and the probability are computed before the random number is
  asked for; an exception there leaves \<open>fight\<close> with the world as it was.
\<close>

definition fight :: "http_outcome \<Rightarrow> world \<Rightarrow> (error + string) \<times> world" where
  "fight h w =
     (if length (ring w) < 2 then
        (Inl (ValueError [Lit ''There must be two boxers to start a fight.'']), w)
      else
        case get_boxers w of
          [boxer_1, boxer_2] \<Rightarrow>
            (case get_fighting_skill boxer_1 of
               Inl e \<Rightarrow> (Inl e, w)
             | Inr skill_1 \<Rightarrow>
                 (case get_fighting_skill boxer_2 of
                    Inl e \<Rightarrow> (Inl e, w)
                  | Inr skill_2 \<Rightarrow>
                      (case normalized_delta (libm_pow_e w) (delta skill_1 skill_2) of
                         Inl e \<Rightarrow> (Inl e, w)
                       | Inr p \<Rightarrow>
                           (case get_random h w of
                              (Inl e, w1) \<Rightarrow> (Inl e, w1)
                            | (Inr random_number, w1) \<Rightarrow>
                                if flt (Fin random_number) p
                                then record_result boxer_1 boxer_2 w1
                                else record_result boxer_2 boxer_1 w1))))
        | _ \<Rightarrow> (Inl (ValueError [Lit ''too many values to unpack (expected 2)'']), w))"

text \<open>Calls on one ring, one after the other; an exception leaves the world as it is then.\<close>

datatype ring_op = EnterRing ring_arg | ClearRing | GetBoxers | Fight http_outcome

fun ring_step :: "ring_op \<Rightarrow> world \<Rightarrow> world" where
  "ring_step (EnterRing x) w = snd (enter_ring x w)"
| "ring_step ClearRing w = clear_ring w"
| "ring_step GetBoxers w = w"
| "ring_step (Fight h) w = snd (fight h w)"

definition run :: "ring_op list \<Rightarrow> world \<Rightarrow> world" where
  "run ops w = fold ring_step ops (new_ring w)"

text \<open>
  The boxers of the ring model's tests (the third one is the boxer its test of a full
  ring tries to enter), and their rows.
\<close>

definition sample_boxer1 :: boxer where
  "sample_boxer1 = \<lparr>boxer_id = 1, name = ''Boxer 1'', weight = 160, height = 70, reach = 72,
                     age = 25, weight_class = ''LIGHTWEIGHT''\<rparr>"

definition sample_boxer2 :: boxer where
  "sample_boxer2 = \<lparr>boxer_id = 2, name = ''Boxer 2'', weight = 165, height = 72, reach = 74,
                     age = 30, weight_class = ''LIGHTWEIGHT''\<rparr>"

definition extra_boxer :: boxer where
  "extra_boxer = \<lparr>boxer_id = 3, name = ''Extra'', weight = 160, height = 70, reach = 72,
                   age = 28, weight_class = ''LIGHTWEIGHT''\<rparr>"

definition sample_rows :: "row list" where
  "sample_rows =
     [\<lparr>row_id = 1, row_name = ''Boxer 1'', row_weight = PyInt 160, row_height = 70,
       row_reach = 72, row_age = 25, fights = 0, wins = 0\<rparr>,
      \<lparr>row_id = 2, row_name = ''Boxer 2'', row_weight = PyInt 165, row_height = 72,
       row_reach = 74, row_age = 30, fights = 0, wins = 0\<rparr>]"

definition extra_row :: row where
  "extra_row = \<lparr>row_id = 3, row_name = ''Extra'', row_weight = PyInt 160, row_height = 70,
                 row_reach = 72, row_age = 28, fights = 0, wins = 0\<rparr>"

definition world0 :: "row list \<Rightarrow> world" where
  "world0 rs = \<lparr>ring = [], boxers = rs, db_fault = None, trace = [], libm_pow_e = cr_pow\<rparr>"


section \<open>Notions used to state the properties\<close>

text \<open>
  \<open>update_boxer_stats i _\<close> finds its boxer: the connection opens, the id is not
  negative, it fits an SQLite integer and the \<open>SELECT\<close> returns a row.
\<close>

definition has_row :: "int \<Rightarrow> world \<Rightarrow> bool" where
  "has_row i w =
     (db_fault w = None \<and> 0 \<le> i \<and> sqlite_int i
      \<and> find (\<lambda>r. row_id r = i) (boxers w) \<noteq> None)"

text \<open>
  The spec's probability, written from its words and not from the code: step 2,
  \<open>delta = |skill(A) - skill(B)|\<close>, and step 3, \<open>p = 1 / (1 + e^(-delta))\<close>, in
  the arithmetic of doubles.
\<close>

definition logistic_of_skills ::
  "(real \<Rightarrow> error + pyfloat) \<Rightarrow> pyfloat \<Rightarrow> pyfloat \<Rightarrow> error + pyfloat" where
  "logistic_of_skills pw skill_a skill_b =
     (case e_pow pw (fneg (fabs (fadd skill_a (fneg skill_b)))) of
        Inl e \<Rightarrow> Inl e
      | Inr y \<Rightarrow> fdiv (Fin 1) (fadd (Fin 1) y))"

text \<open>The skill of the spec, in exact arithmetic.\<close>

definition exact_skill :: "boxer \<Rightarrow> real" where
  "exact_skill b =
     real_of_int (weight b) * real (length (name b)) + reach b / 10
       + (if age b < 25 then - 1 else if age b > 35 then - 2 else 0)"

text \<open>A world whose ring holds the two sample boxers, on a given table.\<close>

definition full_ring :: "row list \<Rightarrow> world" where
  "full_ring rs = world0 rs\<lparr>ring := [sample_boxer1, sample_boxer2]\<rparr>"

text \<open>The same ring on a table that holds the first sample boxer only.\<close>

definition first_row_only :: "row list" where
  "first_row_only =
     [\<lparr>row_id = 1, row_name = ''Boxer 1'', row_weight = PyInt 160, row_height = 70,
       row_reach = 72, row_age = 25, fights = 0, wins = 0\<rparr>]"

text \<open>
  A ring in which the third boxer of the tests entered before the first: their skills
  differ by 320.
\<close>

definition uneven_ring :: "row list \<Rightarrow> world" where
  "uneven_ring rs = world0 rs\<lparr>ring := [extra_boxer, sample_boxer1]\<rparr>"

text \<open>A boxer of weight 160 with a name of six characters, reach 72.0 and age 25.\<close>

definition scenario_boxer :: boxer where
  "scenario_boxer = \<lparr>boxer_id = 1, name = ''BoxerA'', weight = 160, height = 70, reach = 72,
                      age = 25, weight_class = ''LIGHTWEIGHT''\<rparr>"

text \<open>\<open>Boxer(4, "Boxer AA", 127, 70, 81.0, 20)\<close>\<close>

definition boxer_AA :: boxer where
  "boxer_AA = \<lparr>boxer_id = 4, name = ''Boxer AA'', weight = 127, height = 70, reach = 81,
                age = 20, weight_class = ''FEATHERWEIGHT''\<rparr>"


text \<open>
  \<open>Boxer(2, "Boxer 2", 160, 70, 72.0, 25)\<close>: the attributes of the first sample boxer
  under the id and the name of the second, and a ring where it entered after the first
  sample boxer: their skills are equal.
\<close>

definition sample_twin :: boxer where
  "sample_twin = \<lparr>boxer_id = 2, name = ''Boxer 2'', weight = 160, height = 70, reach = 72,
                   age = 25, weight_class = ''LIGHTWEIGHT''\<rparr>"

definition tied_ring :: "row list \<Rightarrow> world" where
  "tied_ring rs = world0 rs\<lparr>ring := [sample_boxer1, sample_twin]\<rparr>"

section \<open>Facts about rounding\<close>

lemma expo_floor_log: "0 < x \<Longrightarrow> expo x = \<lfloor>log 2 x\<rfloor>"
proof (induction x rule: expo.induct)
  case (1 x)
  show ?case
  proof (cases "2 \<le> x")
    case True
    then have "expo x = expo (x / 2) + 1" using "1.prems" by (subst expo.simps) simp
    also have "expo (x / 2) = \<lfloor>log 2 (x / 2)\<rfloor>" using "1.IH"(1) True "1.prems" by simp
    also have "log 2 (x / 2) = log 2 x - 1" using "1.prems" by (simp add: log_divide)
    finally show ?thesis by simp
  next
    case False
    show ?thesis
    proof (cases "x < 1")
      case True
      then have "expo x = expo (x * 2) - 1" using "1.prems" False by (subst expo.simps) simp
      also have "expo (x * 2) = \<lfloor>log 2 (x * 2)\<rfloor>" using "1.IH"(2) True False "1.prems" by simp
      also have "log 2 (x * 2) = log 2 x + 1" using "1.prems" by (simp add: log_mult)
      finally show ?thesis by simp
    next
      case c: False
      then have "expo x = 0" using False "1.prems" by (subst expo.simps) simp
      moreover have "0 \<le> log 2 x" "log 2 x < 1" using c False by (simp_all add: log_less_iff)
      then have "\<lfloor>log 2 x\<rfloor> = 0" by linarith
      ultimately show ?thesis by simp
    qed
  qed
qed

lemma expo_unique:
  assumes "2 powi e \<le> x" "x < 2 powi (e + 1)"
  shows "expo x = e"
proof -
  have pos: "0 < x" using assms(1) by (smt (verit) zero_less_power_int)
  have "of_int e \<le> log 2 x"
    using assms(1) pos by (simp add: le_log_iff powr_real_of_int')
  moreover have "log 2 x < of_int (e + 1)"
    using assms(2) pos by (simp add: log_less_iff powr_real_of_int' del: of_int_add)
  ultimately have "\<lfloor>log 2 x\<rfloor> = e" by linarith
  then show ?thesis using pos by (simp add: expo_floor_log)
qed

lemma expo_bounds:
  assumes "0 < x"
  shows "2 powi expo x \<le> x" "x < 2 powi (expo x + 1)"
proof -
  have e: "expo x = \<lfloor>log 2 x\<rfloor>" using assms by (rule expo_floor_log)
  have "of_int (expo x) \<le> log 2 x" unfolding e by simp
  then show "2 powi expo x \<le> x"
    using assms by (simp add: le_log_iff powr_real_of_int')
  have "log 2 x < of_int (expo x + 1)" unfolding e by linarith
  then show "x < 2 powi (expo x + 1)"
    using assms by (simp add: log_less_iff powr_real_of_int' del: of_int_add)
qed

lemma round_even_ge: "of_int k \<le> t \<Longrightarrow> k \<le> round_even t"
  by (auto simp: round_even_def Let_def le_floor_iff) linarith+

lemma round_even_le: "t \<le> of_int k \<Longrightarrow> round_even t \<le> k"
proof -
  assume a: "t \<le> of_int k"
  then have f: "\<lfloor>t\<rfloor> \<le> k" by (simp add: floor_le_iff) 
  show ?thesis
  proof (cases "\<lfloor>t\<rfloor> = k")
    case True
    then have "t - of_int \<lfloor>t\<rfloor> \<le> 0" using a by simp
    then show ?thesis using True by (simp add: round_even_def Let_def)
  next
    case False
    then have "\<lfloor>t\<rfloor> + 1 \<le> k" using f by simp
    then show ?thesis by (auto simp: round_even_def Let_def)
  qed
qed

lemma round_even_of_int [simp]: "round_even (of_int k) = k"
  by (simp add: round_even_def)

lemma round_even_0 [simp]: "round_even 0 = 0"
  by (simp add: round_even_def)


lemma two_powi_less_imp: "(2::real) powi a < 2 powi b \<Longrightarrow> a < b"
  by (rule ccontr) (use power_int_increasing [of b a "2::real"] in auto)

lemma qexp_le:
  assumes "x \<noteq> 0" "\<bar>x\<bar> \<le> 2 powi (52 + j)" "- 1074 \<le> j"
  shows "qexp x \<le> j"
proof -
  have pos: "0 < \<bar>x\<bar>" using assms(1) by simp
  have "2 powi expo \<bar>x\<bar> \<le> \<bar>x\<bar>" using expo_bounds(1) [OF pos] .
  then have "(2::real) powi expo \<bar>x\<bar> < 2 powi (53 + j)"
    using assms(2) power_int_strict_increasing [of "52 + j" "53 + j" "2::real"]
    by linarith
  then have "expo \<bar>x\<bar> < 53 + j" by (rule two_powi_less_imp)
  then show ?thesis using assms(3) by (simp add: qexp_def)
qed

lemma two_powi_split:
  assumes "q \<le> j"
  shows "(2::real) powi j = of_int (2 ^ nat (j - q)) * 2 powi q"
proof -
  define n where "n = nat (j - q)"
  have jn: "j = int n + q" using assms by (simp add: n_def)
  have "(2::real) powi (int n + q) = 2 powi int n * 2 powi q"
    by (rule power_int_add) simp
  also have "(2::real) powi int n = of_int (2 ^ n)" by simp
  finally have e: "(2::real) powi (int n + q) = of_int (2 ^ n) * 2 powi q" .
  show ?thesis unfolding n_def [symmetric] by (subst jn) (rule e)
qed

lemma rd_ge_multiple:
  assumes "qexp x \<le> j" "of_int a * 2 powi j \<le> x"
  shows "of_int a * 2 powi j \<le> rd x"
proof -
  let ?q = "qexp x"
  let ?n = "nat (j - ?q)"
  have pos: "(0::real) < 2 powi ?q" by simp
  have split: "of_int a * (2::real) powi j = of_int (a * 2 ^ ?n) * 2 powi ?q"
    by (subst two_powi_split [OF assms(1)]) (simp only: of_int_mult mult.assoc)
  then have "of_int (a * 2 ^ ?n) * 2 powi ?q \<le> x" using assms(2) by (simp only:)
  then have "of_int (a * 2 ^ ?n) \<le> x / 2 powi ?q"
    using pos by (simp add: pos_le_divide_eq)
  then have "a * 2 ^ ?n \<le> round_even (x / 2 powi ?q)" by (rule round_even_ge)
  then have "(of_int (a * 2 ^ ?n) :: real) \<le> of_int (round_even (x / 2 powi ?q))"
    by (simp only: of_int_le_iff)
  then have "(of_int (a * 2 ^ ?n) :: real) * 2 powi ?q
      \<le> of_int (round_even (x / 2 powi ?q)) * 2 powi ?q"
    using pos by (simp only: mult_le_cancel_right_pos)
  then show ?thesis unfolding split rd_def .
qed

lemma rd_le_multiple:
  assumes "qexp x \<le> j" "x \<le> of_int b * 2 powi j"
  shows "rd x \<le> of_int b * 2 powi j"
proof -
  let ?q = "qexp x"
  let ?n = "nat (j - ?q)"
  have pos: "(0::real) < 2 powi ?q" by simp
  have split: "of_int b * (2::real) powi j = of_int (b * 2 ^ ?n) * 2 powi ?q"
    by (subst two_powi_split [OF assms(1)]) (simp only: of_int_mult mult.assoc)
  then have "x \<le> of_int (b * 2 ^ ?n) * 2 powi ?q" using assms(2) by (simp only:)
  then have "x / 2 powi ?q \<le> of_int (b * 2 ^ ?n)"
    using pos by (simp add: pos_divide_le_eq)
  then have "round_even (x / 2 powi ?q) \<le> b * 2 ^ ?n" by (rule round_even_le)
  then have "(of_int (round_even (x / 2 powi ?q)) :: real) \<le> of_int (b * 2 ^ ?n)"
    by (simp only: of_int_le_iff)
  then have "(of_int (round_even (x / 2 powi ?q)) :: real) * 2 powi ?q
      \<le> of_int (b * 2 ^ ?n) * 2 powi ?q"
    using pos by (simp only: mult_le_cancel_right_pos)
  then show ?thesis unfolding split rd_def .
qed

lemma rd_0 [simp]: "rd 0 = 0"
  by (simp add: rd_def)

lemma rd_bracket:
  assumes j: "- 1074 \<le> j" and a: "\<bar>a\<bar> \<le> 2 ^ 52" and b: "\<bar>b\<bar> \<le> 2 ^ 52"
    and lo: "of_int a * 2 powi j \<le> x" and hi: "x \<le> of_int b * 2 powi j"
  shows "of_int a * 2 powi j \<le> rd x \<and> rd x \<le> of_int b * 2 powi j"
proof (cases "x = 0")
  case True
  with lo hi show ?thesis by simp
next
  case False
  have pj: "(0::real) < 2 powi j" by simp
  have "(of_int \<bar>a\<bar> :: real) \<le> of_int (2 ^ 52)" using a by (simp only: of_int_le_iff)
  then have ra: "\<bar>of_int a :: real\<bar> \<le> 2 ^ 52" by simp
  have "(of_int \<bar>b\<bar> :: real) \<le> of_int (2 ^ 52)" using b by (simp only: of_int_le_iff)
  then have rb: "\<bar>of_int b :: real\<bar> \<le> 2 ^ 52" by simp
  have "- (2 ^ 52 * 2 powi j) \<le> of_int a * (2::real) powi j"
    using ra pj by (smt (verit) mult_le_cancel_right_pos mult_minus_left)
  moreover have "of_int b * (2::real) powi j \<le> 2 ^ 52 * 2 powi j"
    using rb pj by (smt (verit) mult_le_cancel_right_pos)
  ultimately have "\<bar>x\<bar> \<le> 2 ^ 52 * 2 powi j" using lo hi by linarith
  also have "(2::real) ^ 52 * 2 powi j = 2 powi (52 + j)"
    by (simp add: power_int_add)
  finally have q: "qexp x \<le> j" using qexp_le [OF False _ j] by simp
  show ?thesis using rd_ge_multiple [OF q lo] rd_le_multiple [OF q hi] by simp
qed

lemma rd_int_bracket:
  assumes "\<bar>a\<bar> \<le> 2 ^ 52" "\<bar>b\<bar> \<le> 2 ^ 52" "of_int a \<le> x" "x \<le> of_int b"
  shows "of_int a \<le> rd x \<and> rd x \<le> of_int b"
  using rd_bracket [of 0 a b x] assms by simp

lemma rnd_Fin: "\<bar>rd x\<bar> < 2 ^ 1024 \<Longrightarrow> rnd x = Fin (rd x)"
  by (simp add: rnd_def Let_def)

lemma round_even_tie:
  assumes "of_int k \<le> t" "t \<le> of_int k + 1 / 2" "even k"
  shows "round_even t = k"
proof -
  have f: "\<lfloor>t\<rfloor> = k" using assms(1,2) by linarith
  show ?thesis using assms f by (auto simp: round_even_def Let_def)
qed

lemma qexp_binade:
  assumes "2 powi e \<le> \<bar>x\<bar>" "\<bar>x\<bar> < 2 powi (e + 1)" "- 1022 \<le> e"
  shows "qexp x = e - 52"
  using expo_unique [OF assms(1,2)] assms(3) by (simp add: qexp_def)

lemma rd_one:
  assumes "1 \<le> x" "x \<le> 1 + 1 / 2 ^ 53"
  shows "rd x = 1"
proof -
  have q: "qexp x = - 52" using qexp_binade [of 0 x] assms by simp
  have "round_even (x * 2 ^ 52) = 2 ^ 52"
    using assms by (intro round_even_tie) simp_all
  then show ?thesis by (simp add: rd_def q power_int_minus field_simps)
qed

lemma rnd_bracket:
  assumes "- 1074 \<le> j" "\<bar>a\<bar> \<le> 2 ^ 52" "\<bar>b\<bar> \<le> 2 ^ 52"
    "of_int a * 2 powi j \<le> x" "x \<le> of_int b * 2 powi j" "j \<le> 900"
  shows "\<exists>y. rnd x = Fin y \<and> of_int a * 2 powi j \<le> y \<and> y \<le> of_int b * 2 powi j"
proof -
  have br: "of_int a * 2 powi j \<le> rd x" "rd x \<le> of_int b * 2 powi j"
    using rd_bracket [OF assms(1-5)] by simp_all
  have pj: "(2::real) powi j \<le> 2 powi 900"
    using assms(6) by (intro power_int_increasing) simp_all
  have "(of_int \<bar>a\<bar> :: real) \<le> of_int (2 ^ 52)" using assms(2) by (simp only: of_int_le_iff)
  then have ra: "\<bar>of_int a :: real\<bar> \<le> 2 ^ 52" by simp
  have "(of_int \<bar>b\<bar> :: real) \<le> of_int (2 ^ 52)" using assms(3) by (simp only: of_int_le_iff)
  then have rb: "\<bar>of_int b :: real\<bar> \<le> 2 ^ 52" by simp
  have p0: "(0::real) < 2 powi j" by simp
  have "\<bar>of_int a * (2::real) powi j\<bar> \<le> 2 ^ 52 * 2 powi 900"
    unfolding abs_mult using ra pj p0 by (intro mult_mono) simp_all
  moreover have "\<bar>of_int b * (2::real) powi j\<bar> \<le> 2 ^ 52 * 2 powi 900"
    unfolding abs_mult using rb pj p0 by (intro mult_mono) simp_all
  ultimately have "\<bar>rd x\<bar> \<le> 2 ^ 52 * 2 powi 900" using br by linarith
  also have "\<dots> < (2::real) ^ 1024" by simp
  finally show ?thesis using br by (simp add: rnd_Fin)
qed

lemma rnd_int_bracket:
  assumes "\<bar>a\<bar> \<le> 2 ^ 52" "\<bar>b\<bar> \<le> 2 ^ 52" "of_int a \<le> x" "x \<le> of_int b"
  shows "\<exists>y. rnd x = Fin y \<and> of_int a \<le> y \<and> y \<le> of_int b"
  using rnd_bracket [of 0 a b x] assms by simp

lemma math_e_ge_2: "2 \<le> math_e"
  by (simp add: math_e_def)

lemma math_e_powr_unit:
  assumes "v \<le> 0"
  shows "0 < math_e powr v" "math_e powr v \<le> 1"
proof -
  show "0 < math_e powr v" using math_e_ge_2 by simp
  have "math_e powr v \<le> math_e powr 0"
    using math_e_ge_2 assms by (intro powr_mono) simp_all
  then show "math_e powr v \<le> 1" using math_e_ge_2 by simp
qed

lemma math_e_powr_tiny:
  assumes "v \<le> - 54"
  shows "math_e powr v \<le> 1 / 2 ^ 54"
proof -
  have "math_e powr v \<le> 2 powr v"
    using math_e_ge_2 assms by (intro powr_mono2') simp_all
  also have "\<dots> \<le> 2 powr (- 54)"
    using assms by (intro powr_mono) simp_all
  also have "\<dots> = 1 / 2 ^ 54"
    by (simp add: powr_minus inverse_eq_divide)
  finally show ?thesis .
qed

lemma cr_pow_unit:
  assumes "v \<le> 0"
  shows "\<exists>y. cr_pow v = Inr (Fin y) \<and> 0 \<le> y \<and> y \<le> 1"
proof -
  obtain y where "rnd (math_e powr v) = Fin y" "of_int 0 \<le> y" "y \<le> of_int 1"
    using rnd_int_bracket [of 0 1 "math_e powr v"] math_e_powr_unit [OF assms] by auto
  then show ?thesis by (simp add: cr_pow_def)
qed

lemma cr_pow_tiny:
  assumes "v \<le> - 54"
  shows "\<exists>y. cr_pow v = Inr (Fin y) \<and> 0 \<le> y \<and> y \<le> 1 / 2 ^ 54"
proof -
  have v0: "v \<le> 0" using assms by simp
  obtain y where "rnd (math_e powr v) = Fin y" "of_int 0 * 2 powi (- 54) \<le> y"
      "y \<le> of_int 1 * 2 powi (- 54)"
    using rnd_bracket [of "- 54" 0 1 "math_e powr v"] math_e_powr_unit(1) [OF v0]
      math_e_powr_tiny [OF assms]
    by (auto simp: inverse_eq_divide)
  then show ?thesis by (simp add: cr_pow_def inverse_eq_divide)
qed

lemma logistic_step:
  assumes "0 \<le> v" "v \<le> 1"
  shows "\<exists>p. fdiv (Fin 1) (fadd (Fin 1) (Fin v)) = Inr (Fin p) \<and> 1 / 2 \<le> p \<and> p \<le> 1"
proof -
  obtain z where z: "rnd (1 + v) = Fin z" "1 \<le> z" "z \<le> 2"
    using rnd_int_bracket [of 1 2 "1 + v"] assms by auto
  have "1 / 2 \<le> 1 / z" "1 / z \<le> 1" using z(2,3) by (simp_all add: field_simps)
  then obtain p where "rnd (1 / z) = Fin p" "of_int 1 * 2 powi (- 1) \<le> p"
      "p \<le> of_int 2 * 2 powi (- 1)"
    using rnd_bracket [of "- 1" 1 2 "1 / z"] by (auto simp: power_int_minus)
  then show ?thesis using z by (simp add: power_int_minus)
qed

lemma rnd_one: "1 \<le> x \<Longrightarrow> x \<le> 1 + 1 / 2 ^ 53 \<Longrightarrow> rnd x = Fin 1"
  by (simp add: rnd_def Let_def rd_one)

lemma logistic_step_one:
  assumes "0 \<le> v" "v \<le> 1 / 2 ^ 54"
  shows "fdiv (Fin 1) (fadd (Fin 1) (Fin v)) = Inr (Fin 1)"
proof -
  have "v \<le> 1 / 2 ^ 53" using assms(2) by (rule order_trans) simp
  then have "rnd (1 + v) = Fin 1" using assms(1) by (intro rnd_one) simp_all
  moreover have "rnd 1 = Fin 1" by (intro rnd_one) simp_all
  ultimately show ?thesis by simp
qed


section \<open>Weight classes\<close>

lemma get_weight_class_int:
  "get_weight_class (PyInt w) =
     (if w < 0 then
        Inl (ValueError [Lit ''Invalid Weight: '', Val (PyInt w),
                         Lit ''. Must be a non-negative integer.''])
      else if w \<ge> 203 then Inr ''HEAVYWEIGHT''
      else if w \<ge> 166 then Inr ''MIDDLEWEIGHT''
      else if w \<ge> 133 then Inr ''LIGHTWEIGHT''
      else if w \<ge> 125 then Inr ''FEATHERWEIGHT''
      else
        Inl (ValueError [Lit ''Invalid weight: '', Val (PyInt w),
                         Lit ''. Weight must be at least 125.'']))"
  by (simp add: get_weight_class_def)

text \<open>
  Claim C3. On an integer weight, \<open>get_weight_class\<close> raises \<open>ValueError\<close> (the spec's
  InvalidArgument) when the weight is negative or below 125, and otherwise returns the
  first band whose threshold the weight reaches: HEAVYWEIGHT from 203, MIDDLEWEIGHT from
  166, LIGHTWEIGHT from 133, FEATHERWEIGHT from 125. The result depends on the weight
  alone, and a heavier weight never gets a lighter band: if \<open>w\<close> is classified and
  \<open>w \<le> v\<close> then \<open>v\<close> is classified, in a band of the same or a higher rank.
\<close>

theorem get_weight_class_bands:
  "(w < 125 \<longrightarrow> is_ValueError (get_weight_class (PyInt w)))
   \<and> (203 \<le> w \<longrightarrow> get_weight_class (PyInt w) = Inr ''HEAVYWEIGHT'')
   \<and> (166 \<le> w \<and> w < 203 \<longrightarrow> get_weight_class (PyInt w) = Inr ''MIDDLEWEIGHT'')
   \<and> (133 \<le> w \<and> w < 166 \<longrightarrow> get_weight_class (PyInt w) = Inr ''LIGHTWEIGHT'')
   \<and> (125 \<le> w \<and> w < 133 \<longrightarrow> get_weight_class (PyInt w) = Inr ''FEATHERWEIGHT'')
   \<and> (w \<le> v \<and> get_weight_class (PyInt w) = Inr c \<longrightarrow>
        (\<exists>c'. get_weight_class (PyInt v) = Inr c' \<and> band_rank c \<le> band_rank c'))"
  by (auto simp: get_weight_class_int is_ValueError_def band_rank_def split: if_splits)

theorem get_weight_class_bands_witness:
  "is_ValueError (get_weight_class (PyInt (- 1)))
   \<and> is_ValueError (get_weight_class (PyInt 124))
   \<and> get_weight_class (PyInt 220) = Inr ''HEAVYWEIGHT''
   \<and> get_weight_class (PyInt 180) = Inr ''MIDDLEWEIGHT''
   \<and> get_weight_class (PyInt 150) = Inr ''LIGHTWEIGHT''
   \<and> get_weight_class (PyInt 125) = Inr ''FEATHERWEIGHT''
   \<and> (\<exists>c'. get_weight_class (PyInt 220) = Inr c'
          \<and> band_rank ''FEATHERWEIGHT'' \<le> band_rank c')"
  using get_weight_class_bands [of "- 1" 0 "''''"] get_weight_class_bands [of 124 0 "''''"]
    get_weight_class_bands [of 220 0 "''''"] get_weight_class_bands [of 180 0 "''''"]
    get_weight_class_bands [of 150 0 "''''"]
    get_weight_class_bands [of 125 220 "''FEATHERWEIGHT''"]
  by simp

section \<open>Construction of boxers\<close>

lemma Boxer_Inr:
  "Boxer i n wt h r a = Inr b \<Longrightarrow>
     wt = PyInt (weight b) \<and> 125 \<le> weight b
     \<and> get_weight_class (PyInt (weight b)) = Inr (weight_class b)
     \<and> boxer_id b = i \<and> name b = n \<and> height b = h \<and> reach b = r \<and> age b = a"
  by (cases wt) (auto simp: Boxer_def get_weight_class_def split: if_splits)

lemma Boxer_Inl:
  "\<forall>k. wt = PyInt k \<longrightarrow> k < 125 \<Longrightarrow> is_ValueError (Boxer i n wt h r a)"
  by (cases wt) (auto simp: Boxer_def get_weight_class_def is_ValueError_def)

lemma get_boxer_by_id_Inr:
  "fst (get_boxer_by_id i w) = Inr b \<Longrightarrow>
     \<exists>x \<in> set (boxers w). boxer_of_row x = Inr b \<and> row_id x = i"
  by (auto simp: get_boxer_by_id_def Let_def find_Some_iff split: if_splits option.splits
      intro: nth_mem)

lemma get_boxer_by_name_Inr:
  "fst (get_boxer_by_name n w) = Inr b \<Longrightarrow>
     \<exists>x \<in> set (boxers w). boxer_of_row x = Inr b \<and> row_name x = n"
  by (auto simp: get_boxer_by_name_def Let_def find_Some_iff split: if_splits option.splits
      intro: nth_mem)

text \<open>
  Claim C10. The constructor \<open>Boxer\<close> computes \<open>weight_class\<close> from the weight it is
  given. Whenever it returns a boxer, the weight passed was an integer of at least 125,
  it is the boxer's weight, and the boxer's \<open>weight_class\<close> is what \<open>get_weight_class\<close>
  returns for it. Whenever the weight is not an integer of at least 125 (below 125,
  negative, or not an \<open>int\<close>), the constructor raises \<open>ValueError\<close>. The boxers that
  \<open>get_boxer_by_id\<close> and \<open>get_boxer_by_name\<close> return are built by this constructor and
  satisfy the same two facts.
\<close>

theorem Boxer_weight_class_invariant:
  "(Boxer i n wt h r a = Inr b \<longrightarrow>
      wt = PyInt (weight b) \<and> 125 \<le> weight b
      \<and> get_weight_class (PyInt (weight b)) = Inr (weight_class b))
   \<and> ((\<forall>k. wt = PyInt k \<longrightarrow> k < 125) \<longrightarrow> is_ValueError (Boxer i n wt h r a))
   \<and> (fst (get_boxer_by_id j w) = Inr b' \<or> fst (get_boxer_by_name m w) = Inr b' \<longrightarrow>
        125 \<le> weight b' \<and> get_weight_class (PyInt (weight b')) = Inr (weight_class b'))"
proof (intro conjI impI)
  assume "fst (get_boxer_by_id j w) = Inr b' \<or> fst (get_boxer_by_name m w) = Inr b'"
  then obtain x where x: "boxer_of_row x = Inr b'"
    using get_boxer_by_id_Inr get_boxer_by_name_Inr by blast
  then show "125 \<le> weight b'" "get_weight_class (PyInt (weight b')) = Inr (weight_class b')"
    using Boxer_Inr unfolding boxer_of_row_def by blast+
qed (use Boxer_Inr Boxer_Inl in blast)+

theorem Boxer_weight_class_invariant_witness:
  "Boxer 1 ''Boxer 1'' (PyInt 160) 70 72 25 = Inr sample_boxer1
   \<and> is_ValueError (Boxer 3 ''Extra'' (PyInt 100) 70 72 28)
   \<and> is_ValueError (Boxer 3 ''Extra'' (PyFloat 150.5) 70 72 28)
   \<and> fst (get_boxer_by_id 1 (world0 sample_rows)) = Inr sample_boxer1
   \<and> 125 \<le> weight sample_boxer1
   \<and> get_weight_class (PyInt (weight sample_boxer1)) = Inr (weight_class sample_boxer1)"
  using Boxer_weight_class_invariant
      [of 1 "''Boxer 1''" "PyInt 160" 70 72 25 sample_boxer1 1 "world0 sample_rows"
          sample_boxer1 "''Boxer 1''"]
    Boxer_weight_class_invariant
      [of 3 "''Extra''" "PyInt 100" 70 72 28 sample_boxer1 1 "world0 sample_rows"
          sample_boxer1 "''Boxer 1''"]
    Boxer_weight_class_invariant
      [of 3 "''Extra''" "PyFloat 150.5" 70 72 28 sample_boxer1 1 "world0 sample_rows"
          sample_boxer1 "''Boxer 1''"]
  by (simp add: Boxer_def get_weight_class_def sample_boxer1_def get_boxer_by_id_def
      boxer_of_row_def world0_def sample_rows_def sqlite_int_def Let_def)

section \<open>Creation of boxers\<close>

text \<open>
  Claim C9. \<open>create_boxer\<close> checks weight, height, reach and age before it opens a
  database connection. When the weight is below 125, or the height or the reach is not
  positive, or the age is outside 18..40, it raises \<open>ValueError\<close> and the world is what
  it was: no row is written and no connection is opened. Conversely, whenever the call
  changes anything, all four checks have passed. In particular
  \<open>create_boxer("X", 100, 70, 72.0, 25)\<close> raises the \<open>ValueError\<close> of the weight check
  and leaves the world unchanged.
\<close>

theorem create_boxer_validates_first:
  "(wt < 125 \<or> h \<le> 0 \<or> r \<le> 0 \<or> a < 18 \<or> 40 < a \<longrightarrow>
      is_ValueError (fst (create_boxer n wt h r a w)) \<and> snd (create_boxer n wt h r a w) = w)
   \<and> (snd (create_boxer n wt h r a w) \<noteq> w \<longrightarrow>
        125 \<le> wt \<and> 0 < h \<and> 0 < r \<and> 18 \<le> a \<and> a \<le> 40)
   \<and> create_boxer ''X'' 100 70 72 25 w
       = (Inl (ValueError [Lit ''Invalid weight: '', Val (PyInt 100),
                           Lit ''. Must be at least 125.'']), w)"
  by (auto simp: create_boxer_def is_ValueError_def)

theorem create_boxer_validates_first_witness:
  "(100::int) < 125
   \<and> is_ValueError (fst (create_boxer ''X'' 100 70 72 25 (world0 sample_rows)))
   \<and> snd (create_boxer ''X'' 100 70 72 25 (world0 sample_rows)) = world0 sample_rows
   \<and> snd (create_boxer ''X'' 130 70 72 25 (world0 sample_rows)) \<noteq> world0 sample_rows"
  using create_boxer_validates_first [of 100 70 72 25 "''X''" "world0 sample_rows"]
    create_boxer_validates_first [of 130 70 72 25 "''X''" "world0 sample_rows"]
  by (simp add: create_boxer_def world0_def sample_rows_def sqlite_int_def Let_def)


section \<open>Skill\<close>

lemma rd_overflow:
  assumes "2 ^ 1024 \<le> x"
  shows "2 ^ 1024 \<le> rd x"
proof -
  have pos: "0 < x" using assms by (smt (verit) zero_less_power)
  have ax: "\<bar>x\<bar> = x" using pos by simp
  have lo: "2 powi expo x \<le> x" and hi: "x < 2 powi (expo x + 1)"
    using expo_bounds [OF pos] by simp_all
  have "(2::real) powi 1024 < 2 powi (expo x + 1)" using assms hi by simp
  then have e: "1024 \<le> expo x" using two_powi_less_imp [of 1024 "expo x + 1"] by simp
  then have q: "qexp x = expo x - 52" by (simp add: qexp_def ax)
  have "(2::real) powi (52 + (expo x - 52)) = 2 powi 52 * 2 powi (expo x - 52)"
    by (rule power_int_add) simp
  then have split: "of_int (2 ^ 52) * (2::real) powi qexp x = 2 powi expo x"
    unfolding q by simp
  have "of_int (2 ^ 52) * (2::real) powi qexp x \<le> rd x"
    by (rule rd_ge_multiple) (simp_all only: split lo order_refl)
  then have "2 powi expo x \<le> rd x" by (simp only: split)
  moreover have "(2::real) powi 1024 \<le> 2 powi expo x"
    using e by (intro power_int_increasing) simp_all
  ultimately show ?thesis by simp
qed

lemma float_of_int_exact:
  assumes "\<bar>n\<bar> \<le> 2 ^ 52"
  shows "float_of_int n = Inr (Fin (of_int n))"
proof -
  obtain y where "rnd (of_int n) = Fin y" "of_int n \<le> y" "y \<le> of_int n"
    using rnd_int_bracket [of n n "of_int n"] assms by auto
  then show ?thesis by (simp add: float_of_int_def)
qed

lemma float_of_int_overflow:
  assumes "2 ^ 1024 \<le> n"
  shows "float_of_int n = Inl (OverflowError [Lit ''int too large to convert to float''])"
proof -
  have "(of_int (2 ^ 1024) :: real) \<le> of_int n" using assms by (simp only: of_int_le_iff)
  then have "(2::real) ^ 1024 \<le> of_int n" by simp
  then have "2 ^ 1024 \<le> rd (of_int n)" by (rule rd_overflow)
  then have "rnd (of_int n) = PInf" by (simp add: rnd_def Let_def)
  then show ?thesis by (simp add: float_of_int_def)
qed

lemmas eval_rnd = rnd_def rd_def qexp_def expo.simps round_even_def Let_def

lemma skill_sample_boxer1:
  "get_fighting_skill sample_boxer1 = Inr (Fin (4957478027316429 / 2 ^ 42))"
  by (simp add: get_fighting_skill_def sample_boxer1_def) (simp add: float_of_int_def eval_rnd)

lemma skill_sample_boxer2:
  "get_fighting_skill sample_boxer2 = Inr (Fin (2556144632253645 / 2 ^ 41))"
  by (simp add: get_fighting_skill_def sample_boxer2_def) (simp add: float_of_int_def eval_rnd)

lemma skill_extra_boxer:
  "get_fighting_skill extra_boxer = Inr (Fin (3550103143763149 / 2 ^ 42))"
  by (simp add: get_fighting_skill_def extra_boxer_def) (simp add: float_of_int_def eval_rnd)

text \<open>
  Claim C4, as the spec states it, fails: the skill is computed in doubles, and each
  of its three operations rounds. For \<open>Boxer(4, "Boxer AA", 127, 70, 81.0, 20)\<close> the
  formula gives 127 * 8 + 8.1 - 1 = 1023.1; the program returns the double
  1023.0999999999999, which is neither that number nor the double nearest to it.
\<close>

theorem skill_is_rounded:
  "get_fighting_skill boxer_AA = Inr (Fin (2249820692755251 / 2 ^ 41))
   \<and> exact_skill boxer_AA = 10231 / 10
   \<and> (2249820692755251 / 2 ^ 41 :: real) \<noteq> 10231 / 10
   \<and> rnd (10231 / 10) = Fin (8999282771021005 / 2 ^ 43)
   \<and> (2249820692755251 / 2 ^ 41 :: real) \<noteq> 8999282771021005 / 2 ^ 43"
  by (simp add: get_fighting_skill_def boxer_AA_def exact_skill_def)
    (simp add: float_of_int_def eval_rnd)

text \<open>
  Claim C4, amended. The skill of a boxer is the double that
  \<open>float(weight * len(name)) + reach / 10 + age_modifier\<close> gives when it is evaluated
  from left to right in binary64 arithmetic, each operation rounded to the nearest
  double (ties to even), with the age modifier -1 below 25, -2 above 35 and 0
  otherwise. The conversion of the product is exact up to \<open>2 ^ 52\<close>; when the product
  is \<open>2 ^ 1024\<close> or more there is no skill: the conversion raises \<open>OverflowError\<close>.
  The skill is a function of weight, name length, reach and age alone. For a boxer
  of weight 160 with a six-character name, reach 72.0 and age 25 it is the double
  967.2, that is \<open>4253790585539789 / 2 ^ 42\<close>.
\<close>

theorem get_fighting_skill_formula:
  "get_fighting_skill b =
     (case float_of_int (weight b * int (length (name b))) of
        Inl e \<Rightarrow> Inl e
      | Inr f \<Rightarrow>
          Inr (fadd (fadd f (rnd (reach b / 10)))
                 (Fin (if age b < 25 then - 1 else if age b > 35 then - 2 else 0))))
   \<and> (\<bar>weight b * int (length (name b))\<bar> \<le> 2 ^ 52 \<longrightarrow>
        float_of_int (weight b * int (length (name b)))
          = Inr (Fin (real_of_int (weight b * int (length (name b))))))
   \<and> (2 ^ 1024 \<le> weight b * int (length (name b)) \<longrightarrow>
        get_fighting_skill b
          = Inl (OverflowError [Lit ''int too large to convert to float'']))
   \<and> (weight b = 160 \<and> length (name b) = 6 \<and> reach b = 72 \<and> age b = 25 \<longrightarrow>
        get_fighting_skill b = Inr (rnd (9672 / 10))
        \<and> rnd (9672 / 10) = Fin (4253790585539789 / 2 ^ 42))
   \<and> (weight b = weight b' \<and> length (name b) = length (name b') \<and> reach b = reach b'
        \<and> age b = age b' \<longrightarrow> get_fighting_skill b = get_fighting_skill b')"
proof (intro conjI impI)
  show "get_fighting_skill b =
     (case float_of_int (weight b * int (length (name b))) of
        Inl e \<Rightarrow> Inl e
      | Inr f \<Rightarrow>
          Inr (fadd (fadd f (rnd (reach b / 10)))
                 (Fin (if age b < 25 then - 1 else if age b > 35 then - 2 else 0))))"
    by (auto simp: get_fighting_skill_def Let_def split: sum.splits)
next
  assume "\<bar>weight b * int (length (name b))\<bar> \<le> 2 ^ 52"
  then show "float_of_int (weight b * int (length (name b)))
      = Inr (Fin (real_of_int (weight b * int (length (name b)))))"
    by (rule float_of_int_exact)
next
  assume "2 ^ 1024 \<le> weight b * int (length (name b))"
  then show "get_fighting_skill b
      = Inl (OverflowError [Lit ''int too large to convert to float''])"
    by (simp add: get_fighting_skill_def Let_def float_of_int_overflow)
next
  assume a: "weight b = 160 \<and> length (name b) = 6 \<and> reach b = 72 \<and> age b = 25"
  then show "get_fighting_skill b = Inr (rnd (9672 / 10))"
    by (simp add: get_fighting_skill_def) (simp add: float_of_int_def eval_rnd)
next
  show "rnd (9672 / 10) = Fin (4253790585539789 / 2 ^ 42)"
    by (simp add: eval_rnd)
next
  assume "weight b = weight b' \<and> length (name b) = length (name b') \<and> reach b = reach b'
        \<and> age b = age b'"
  then show "get_fighting_skill b = get_fighting_skill b'"
    by (simp add: get_fighting_skill_def)
qed

theorem get_fighting_skill_formula_witness:
  "weight scenario_boxer = 160 \<and> length (name scenario_boxer) = 6
   \<and> reach scenario_boxer = 72 \<and> age scenario_boxer = 25
   \<and> \<bar>weight scenario_boxer * int (length (name scenario_boxer))\<bar> \<le> 2 ^ 52
   \<and> get_fighting_skill scenario_boxer = Inr (Fin (4253790585539789 / 2 ^ 42))
   \<and> get_fighting_skill scenario_boxer
       = get_fighting_skill (scenario_boxer\<lparr>boxer_id := 2, name := ''BoxerB'', height := 72\<rparr>)
   \<and> 2 ^ 1024 \<le> weight (scenario_boxer\<lparr>weight := 10 ^ 400\<rparr>)
                    * int (length (name (scenario_boxer\<lparr>weight := 10 ^ 400\<rparr>)))
   \<and> get_fighting_skill (scenario_boxer\<lparr>weight := 10 ^ 400\<rparr>)
       = Inl (OverflowError [Lit ''int too large to convert to float''])"
proof -
  let ?b' = "scenario_boxer\<lparr>boxer_id := 2, name := ''BoxerB'', height := 72\<rparr>"
  let ?big = "scenario_boxer\<lparr>weight := 10 ^ 400\<rparr>"
  have h1: "weight scenario_boxer = 160 \<and> length (name scenario_boxer) = 6
      \<and> reach scenario_boxer = 72 \<and> age scenario_boxer = 25"
    by (simp add: scenario_boxer_def)
  have h2: "\<bar>weight scenario_boxer * int (length (name scenario_boxer))\<bar> \<le> 2 ^ 52"
    by (simp add: scenario_boxer_def)
  have h3: "weight scenario_boxer = weight ?b'
      \<and> length (name scenario_boxer) = length (name ?b')
      \<and> reach scenario_boxer = reach ?b' \<and> age scenario_boxer = age ?b'"
    by (simp add: scenario_boxer_def)
  have h4: "2 ^ 1024 \<le> weight ?big * int (length (name ?big))"
    by (simp add: scenario_boxer_def)
  have e1: "get_fighting_skill scenario_boxer = Inr (rnd (9672 / 10))"
    and e2: "rnd (9672 / 10) = Fin (4253790585539789 / 2 ^ 42)"
    using get_fighting_skill_formula [of scenario_boxer ?b'] h1 by blast+
  have "get_fighting_skill scenario_boxer = Inr (Fin (4253790585539789 / 2 ^ 42))"
    unfolding e1 e2 ..
  moreover have "get_fighting_skill scenario_boxer = get_fighting_skill ?b'"
    using get_fighting_skill_formula [of scenario_boxer ?b'] h3 by blast
  moreover have "get_fighting_skill ?big
      = Inl (OverflowError [Lit ''int too large to convert to float''])"
    using get_fighting_skill_formula [of ?big scenario_boxer] h4 by blast
  ultimately show ?thesis using h1 h2 h4 by blast
qed


section \<open>Probability\<close>




lemma normalized_delta_zero: "normalized_delta pw (Fin 0) = Inr (Fin (1 / 2))"
  by (simp add: normalized_delta_def e_pow_def) (simp add: eval_rnd)


lemma normalized_delta_pos:
  assumes "0 < d" "pw (- d) = Inr (Fin v)" "0 \<le> v" "v \<le> 1"
  shows "\<exists>p. normalized_delta pw (Fin d) = Inr (Fin p) \<and> 1 / 2 \<le> p \<and> p \<le> 1"
  using assms logistic_step [of v] by (simp add: normalized_delta_def e_pow_def)

lemma normalized_delta_cr:
  assumes "0 \<le> d"
  shows "\<exists>p. normalized_delta cr_pow (Fin d) = Inr (Fin p) \<and> 1 / 2 \<le> p \<and> p \<le> 1"
proof (cases "d = 0")
  case True
  have "normalized_delta cr_pow (Fin 0) = Inr (Fin (1 / 2)) \<and> (1 / 2 :: real) \<le> 1 / 2
      \<and> (1 / 2 :: real) \<le> 1"
    by (simp add: normalized_delta_zero)
  then show ?thesis unfolding True by blast
next
  case False
  then have pos: "0 < d" using assms by simp
  obtain v where "cr_pow (- d) = Inr (Fin v)" "0 \<le> v" "v \<le> 1"
    using cr_pow_unit [of "- d"] pos by auto
  then show ?thesis using pos by (intro normalized_delta_pos)
qed

lemma normalized_delta_cr_one:
  assumes "54 \<le> d"
  shows "normalized_delta cr_pow (Fin d) = Inr (Fin 1)"
proof -
  obtain v where "cr_pow (- d) = Inr (Fin v)" "0 \<le> v" "v \<le> 1 / 2 ^ 54"
    using cr_pow_tiny [of "- d"] assms by auto
  then show ?thesis
    using assms logistic_step_one [of v] by (simp add: normalized_delta_def e_pow_def)
qed


lemma delta_extra_sample1:
  "delta (Fin (3550103143763149 / 2 ^ 42)) (Fin (4957478027316429 / 2 ^ 42)) = Fin 320"
  by (simp add: delta_def fsub_def) (simp add: eval_rnd)





section \<open>The ring\<close>

text \<open>
  Claim C7. \<open>clear_ring\<close> cannot fail. From a ring of any size it leaves the ring
  empty, so that \<open>get_boxers\<close> returns the empty list; on an empty ring it changes
  nothing; clearing twice is the same as clearing once. It touches neither the table
  nor the outside.
\<close>

theorem clear_ring_idempotent:
  "ring (clear_ring w) = []
   \<and> get_boxers (clear_ring w) = []
   \<and> clear_ring (clear_ring w) = clear_ring w
   \<and> (ring w = [] \<longrightarrow> clear_ring w = w)
   \<and> boxers (clear_ring w) = boxers w \<and> trace (clear_ring w) = trace w
   \<and> db_fault (clear_ring w) = db_fault w"
  by (simp add: clear_ring_def get_boxers_def)

theorem clear_ring_idempotent_witness:
  "ring (world0 sample_rows) = [] \<and> clear_ring (world0 sample_rows) = world0 sample_rows
   \<and> ring (clear_ring (full_ring sample_rows)) = []"
  using clear_ring_idempotent [of "world0 sample_rows"]
    clear_ring_idempotent [of "full_ring sample_rows"]
  by (simp add: world0_def)

lemma update_boxer_stats_ring: "ring (snd (update_boxer_stats i res w)) = ring w"
  by (simp add: update_boxer_stats_def Let_def split: option.splits)

lemma get_random_ring: "ring (snd (get_random h w)) = ring w"
  by (simp add: get_random_def Let_def split: http_outcome.splits option.splits)

lemma record_result_ring:
  "(case fst (record_result x y w) of
      Inl e \<Rightarrow> ring (snd (record_result x y w)) = ring w
    | Inr n \<Rightarrow> ring (snd (record_result x y w)) = [])"
proof -
  obtain r1 w1 where u1: "update_boxer_stats (boxer_id x) ''win'' w = (r1, w1)"
    by (cases "update_boxer_stats (boxer_id x) ''win'' w")
  have ring1: "ring w1 = ring w"
    using update_boxer_stats_ring [of "boxer_id x" "''win''" w] u1 by simp
  obtain r2 w2 where u2: "update_boxer_stats (boxer_id y) ''loss'' w1 = (r2, w2)"
    by (cases "update_boxer_stats (boxer_id y) ''loss'' w1")
  have ring2: "ring w2 = ring w"
    using update_boxer_stats_ring [of "boxer_id y" "''loss''" w1] u2 ring1 by simp
  show ?thesis
    using u1 u2 ring1 ring2
    by (cases r1; cases r2) (simp_all add: record_result_def clear_ring_def)
qed

lemma record_result_name: "fst (record_result x y w) = Inr n \<Longrightarrow> n = name x"
  by (auto simp: record_result_def split: prod.splits sum.splits)

lemma logistic_of_skills_eq:
  "logistic_of_skills pw skill_1 skill_2 = normalized_delta pw (delta skill_1 skill_2)"
  by (simp add: logistic_of_skills_def normalized_delta_def delta_def fsub_def)

lemma fight_two:
  "ring w = [a, b] \<Longrightarrow>
   fight h w =
     (case get_fighting_skill a of
        Inl e \<Rightarrow> (Inl e, w)
      | Inr skill_1 \<Rightarrow>
          (case get_fighting_skill b of
             Inl e \<Rightarrow> (Inl e, w)
           | Inr skill_2 \<Rightarrow>
               (case logistic_of_skills (libm_pow_e w) skill_1 skill_2 of
                  Inl e \<Rightarrow> (Inl e, w)
                | Inr p \<Rightarrow>
                    (case get_random h w of
                       (Inl e, w1) \<Rightarrow> (Inl e, w1)
                     | (Inr random_number, w1) \<Rightarrow>
                         if flt (Fin random_number) p
                         then record_result a b w1 else record_result b a w1))))"
  by (simp add: fight_def get_boxers_def logistic_of_skills_eq split: sum.splits)

lemma fight_drawn:
  assumes "ring w = [a, b]" "get_fighting_skill a = Inr s1" "get_fighting_skill b = Inr s2"
    and "logistic_of_skills (libm_pow_e w) s1 s2 = Inr p"
  shows "fight h w =
     (case get_random h w of
        (Inl e, w1) \<Rightarrow> (Inl e, w1)
      | (Inr random_number, w1) \<Rightarrow>
          if flt (Fin random_number) p
          then record_result a b w1 else record_result b a w1)"
  using assms by (simp add: fight_two)

lemma fight_random:
  assumes "ring w = [a, b]" "get_fighting_skill a = Inr s1" "get_fighting_skill b = Inr s2"
    and "logistic_of_skills (libm_pow_e w) s1 s2 = Inr p"
  shows "fight (HttpText t (Some r)) w =
     (if flt (Fin r) p
      then record_result a b (w\<lparr>trace := trace w @ [RandomOrgRequest]\<rparr>)
      else record_result b a (w\<lparr>trace := trace w @ [RandomOrgRequest]\<rparr>))"
  using assms by (simp add: fight_two get_random_def)

lemma fight_short:
  "length (ring w) < 2 \<Longrightarrow>
   fight h w = (Inl (ValueError [Lit ''There must be two boxers to start a fight.'']), w)"
  by (simp add: fight_def)

lemma fight_long:
  "2 < length (ring w) \<Longrightarrow>
   fight h w = (Inl (ValueError [Lit ''too many values to unpack (expected 2)'']), w)"
proof -
  assume "2 < length (ring w)"
  then obtain a b c cs where "ring w = a # b # c # cs"
    by (cases "ring w"; simp; cases "tl (ring w)"; simp; cases "tl (tl (ring w))"; simp)
  then show ?thesis by (simp add: fight_def get_boxers_def)
qed

lemma length_2_cases:
  "length xs < 2 \<or> (\<exists>a b. xs = [a, b]) \<or> 2 < length xs"
  by (cases xs; simp; cases "tl xs"; auto)

lemma fight_ring:
  "(case fst (fight h w) of
      Inl e \<Rightarrow> ring (snd (fight h w)) = ring w
    | Inr n \<Rightarrow> ring (snd (fight h w)) = [])"
proof -
  consider (short) "length (ring w) < 2" | (two) a b where "ring w = [a, b]"
    | (long) "2 < length (ring w)"
    using length_2_cases [of "ring w"] by blast
  then show ?thesis
  proof cases
    case short
    then show ?thesis by (simp add: fight_short)
  next
    case long
    then show ?thesis by (simp add: fight_long)
  next
    case two
    show ?thesis
    proof (cases "\<exists>s1 s2 p. get_fighting_skill a = Inr s1 \<and> get_fighting_skill b = Inr s2
        \<and> logistic_of_skills (libm_pow_e w) s1 s2 = Inr p")
      case False
      then have "\<exists>e. fight h w = (Inl e, w)"
        using two by (auto simp: fight_two split: sum.splits)
      then show ?thesis by auto
    next
      case True
      then obtain s1 s2 p where sk: "get_fighting_skill a = Inr s1"
        "get_fighting_skill b = Inr s2" "logistic_of_skills (libm_pow_e w) s1 s2 = Inr p"
        by blast
      note f = fight_drawn [OF two sk, of h]
      obtain r w1 where g: "get_random h w = (r, w1)" by (cases "get_random h w")
      have rw1: "ring w1 = ring w" using get_random_ring [of h w] g by simp
      show ?thesis
      proof (cases r)
        case (Inl e)
        with g rw1 show ?thesis by (simp add: f)
      next
        case (Inr x)
        with g have "fight h w = record_result a b w1 \<or> fight h w = record_result b a w1"
          by (simp add: f)
        then show ?thesis
          using rw1 record_result_ring [of a b w1] record_result_ring [of b a w1]
          by (auto split: sum.splits)
      qed
    qed
  qed
qed

lemma fight_length: "length (ring (snd (fight h w))) \<le> length (ring w)"
  using fight_ring [of h w] by (cases "fst (fight h w)") simp_all

lemma enter_ring_length:
  "length (ring w) \<le> 2 \<Longrightarrow> length (ring (snd (enter_ring x w))) \<le> 2"
  by (cases x) (simp_all add: enter_ring_def)

lemma ring_step_length:
  "length (ring w) \<le> 2 \<Longrightarrow> length (ring (ring_step op w)) \<le> 2"
proof (cases op)
  case (EnterRing x)
  assume "length (ring w) \<le> 2"
  with EnterRing show ?thesis by (simp add: enter_ring_length)
next
  case ClearRing
  assume "length (ring w) \<le> 2"
  with ClearRing show ?thesis by (simp add: clear_ring_def)
next
  case GetBoxers
  assume "length (ring w) \<le> 2"
  with GetBoxers show ?thesis by simp
next
  case (Fight h)
  assume "length (ring w) \<le> 2"
  with Fight fight_length [of h w] show ?thesis by simp
qed

lemma fold_ring_step_length:
  "length (ring w) \<le> 2 \<Longrightarrow> length (ring (fold ring_step ops w)) \<le> 2"
  by (induction ops arbitrary: w) (simp_all add: ring_step_length)

lemma run_length: "length (ring (run ops w)) \<le> 2"
  by (simp add: run_def new_ring_def fold_ring_step_length)

text \<open>
  Claim C5. After any sequence of \<open>enter_ring\<close>, \<open>clear_ring\<close>, \<open>get_boxers\<close> and
  \<open>fight\<close> calls on a new ring, whatever their arguments and whether they raise or
  not, the ring holds at most two boxers; each single call keeps that bound. On a
  ring of fewer than two boxers \<open>enter_ring\<close> appends the boxer at the end; on a ring
  of two it raises \<open>ValueError\<close> "Ring is full, cannot add more boxers." (the spec's
  FullRing) and changes nothing; on an argument that is not a \<open>Boxer\<close> it raises
  \<open>TypeError\<close> (the spec's InvalidArgument) and changes nothing.
\<close>

theorem ring_capacity:
  "length (ring (run ops w0)) \<le> 2
   \<and> (length (ring w) \<le> 2 \<longrightarrow> length (ring (ring_step op w)) \<le> 2)
   \<and> (length (ring w) < 2 \<longrightarrow>
        enter_ring (ABoxer b) w = (Inr (), w\<lparr>ring := ring w @ [b]\<rparr>))
   \<and> (length (ring w) = 2 \<longrightarrow>
        enter_ring (ABoxer b) w
          = (Inl (ValueError [Lit ''Ring is full, cannot add more boxers.'']), w))
   \<and> is_TypeError (fst (enter_ring (NotABoxer v) w))
   \<and> snd (enter_ring (NotABoxer v) w) = w"
  by (simp add: run_length ring_step_length enter_ring_def is_TypeError_def)

theorem ring_capacity_witness:
  "length (ring (world0 [])) < 2
   \<and> enter_ring (ABoxer sample_boxer1) (world0 [])
       = (Inr (), world0 []\<lparr>ring := [sample_boxer1]\<rparr>)
   \<and> length (ring (full_ring [])) = 2
   \<and> enter_ring (ABoxer sample_boxer1) (full_ring [])
       = (Inl (ValueError [Lit ''Ring is full, cannot add more boxers.'']), full_ring [])
   \<and> length (ring (ring_step (EnterRing (ABoxer sample_boxer1)) (full_ring []))) \<le> 2"
  using ring_capacity [of "[]" "world0 []" "world0 []" "ClearRing" sample_boxer1 PyNone]
    ring_capacity [of "[]" "world0 []" "full_ring []" "EnterRing (ABoxer sample_boxer1)"
      sample_boxer1 PyNone]
  by (simp add: world0_def full_ring_def)

text \<open>
  Claim C6. On a ring of fewer than two boxers \<open>fight\<close> raises \<open>ValueError\<close> with the
  message "There must be two boxers to start a fight." (the spec's
  InsufficientOccupants; the spec quotes the message without the capital and the full
  stop) and returns the world as it was: the ring and the table are unchanged, and no
  request to random.org or database connection has been made.
\<close>

theorem fight_needs_two_boxers:
  "length (ring w) < 2 \<Longrightarrow>
   fight h w = (Inl (ValueError [Lit ''There must be two boxers to start a fight.'']), w)"
  by (simp add: fight_def)

theorem fight_needs_two_boxers_witness:
  "length (ring (world0 sample_rows\<lparr>ring := [sample_boxer1]\<rparr>)) < 2
   \<and> fight (HttpText ''0.50'' (Some 0.5)) (world0 sample_rows\<lparr>ring := [sample_boxer1]\<rparr>)
       = (Inl (ValueError [Lit ''There must be two boxers to start a fight.'']),
          world0 sample_rows\<lparr>ring := [sample_boxer1]\<rparr>)"
  using fight_needs_two_boxers
      [of "world0 sample_rows\<lparr>ring := [sample_boxer1]\<rparr>" "HttpText ''0.50'' (Some 0.5)"]
  by (simp add: world0_def)


section \<open>The outcome of a fight\<close>

lemma find_update_rows:
  "(find (\<lambda>r. row_id r = i) (update_rows j res rs) = None)
     = (find (\<lambda>r. row_id r = i) rs = None)"
  by (induction rs) (simp_all add: update_rows_def)

lemma update_boxer_stats_ok:
  "has_row i w \<Longrightarrow> res = ''win'' \<or> res = ''loss'' \<Longrightarrow>
   update_boxer_stats i res w
     = (Inr (), w\<lparr>trace := trace w @ [DbConnection], boxers := update_rows i res (boxers w)\<rparr>)"
  by (auto simp: has_row_def update_boxer_stats_def Let_def)

lemma update_boxer_stats_no_row:
  "\<not> has_row i w \<Longrightarrow> \<exists>e w1. update_boxer_stats i res w = (Inl e, w1)"
  by (auto simp: has_row_def update_boxer_stats_def Let_def split: option.splits)

lemma update_boxer_stats_Inl:
  "update_boxer_stats i res w = (Inl e, w1) \<Longrightarrow> ring w1 = ring w \<and> boxers w1 = boxers w"
  by (auto simp: update_boxer_stats_def Let_def split: if_splits option.splits)

lemma update_boxer_stats_Inr:
  "update_boxer_stats i res w = (Inr u, w1) \<Longrightarrow>
   ring w1 = ring w \<and> boxers w1 = update_rows i res (boxers w) \<and> has_row i w"
  by (auto simp: update_boxer_stats_def has_row_def Let_def split: if_splits option.splits)

lemma get_random_Inl:
  "get_random h w = (Inl e, w1) \<Longrightarrow> ring w1 = ring w \<and> boxers w1 = boxers w"
  by (auto simp: get_random_def Let_def split: http_outcome.splits option.splits)

lemma get_random_Inr:
  "get_random h w = (Inr r, w1) \<Longrightarrow> w1 = w\<lparr>trace := trace w @ [RandomOrgRequest]\<rparr>"
  by (auto simp: get_random_def Let_def split: http_outcome.splits option.splits)

lemma has_row_after_update:
  "has_row i w \<Longrightarrow>
   has_row i (w\<lparr>trace := tr, boxers := update_rows j res (boxers w)\<rparr>)"
  by (simp add: has_row_def find_update_rows)

lemma has_row_trace: "has_row i (w\<lparr>trace := tr\<rparr>) = has_row i w"
  by (simp add: has_row_def)

lemma has_row_updated:
  assumes "update_boxer_stats j res w = (Inr u, w1)"
  shows "has_row i w1 = has_row i w"
proof -
  have "w1 = w\<lparr>trace := trace w @ [DbConnection], boxers := update_rows j res (boxers w)\<rparr>"
    using assms by (auto simp: update_boxer_stats_def Let_def split: if_splits option.splits)
  then show ?thesis by (simp add: has_row_def find_update_rows)
qed

lemma record_result_ok:
  assumes "has_row (boxer_id x) w" "has_row (boxer_id y) w"
  shows "record_result x y w
     = (Inr (name x),
        clear_ring (w\<lparr>trace := trace w @ [DbConnection, DbConnection],
           boxers := update_rows (boxer_id y) ''loss''
                       (update_rows (boxer_id x) ''win'' (boxers w))\<rparr>))"
proof -
  let ?w1 = "w\<lparr>trace := trace w @ [DbConnection],
                boxers := update_rows (boxer_id x) ''win'' (boxers w)\<rparr>"
  have u1: "update_boxer_stats (boxer_id x) ''win'' w = (Inr (), ?w1)"
    using assms(1) by (simp add: update_boxer_stats_ok)
  have "has_row (boxer_id y) ?w1"
    using assms(2) by (rule has_row_after_update)
  then have u2: "update_boxer_stats (boxer_id y) ''loss'' ?w1
      = (Inr (), ?w1\<lparr>trace := trace ?w1 @ [DbConnection],
                     boxers := update_rows (boxer_id y) ''loss'' (boxers ?w1)\<rparr>)"
    by (simp add: update_boxer_stats_ok)
  show ?thesis
    unfolding record_result_def u1 by (simp add: u2)
qed

lemma record_result_steps:
  "(\<forall>e w1. update_boxer_stats (boxer_id x) ''win'' w = (Inl e, w1) \<longrightarrow>
       record_result x y w = (Inl e, w1))
   \<and> (\<forall>w1. update_boxer_stats (boxer_id x) ''win'' w = (Inr (), w1) \<longrightarrow>
        (\<forall>e w2. update_boxer_stats (boxer_id y) ''loss'' w1 = (Inl e, w2) \<longrightarrow>
            record_result x y w = (Inl e, w2))
      \<and> (\<forall>w2. update_boxer_stats (boxer_id y) ''loss'' w1 = (Inr (), w2) \<longrightarrow>
            record_result x y w = (Inr (name x), clear_ring w2)))"
  by (simp add: record_result_def)

lemma record_result_returns:
  "(\<exists>n. fst (record_result x y w) = Inr n)
     = (has_row (boxer_id x) w \<and> has_row (boxer_id y) w)"
proof
  assume "has_row (boxer_id x) w \<and> has_row (boxer_id y) w"
  then show "\<exists>n. fst (record_result x y w) = Inr n" by (simp add: record_result_ok)
next
  assume ret: "\<exists>n. fst (record_result x y w) = Inr n"
  obtain r1 w1 where u1: "update_boxer_stats (boxer_id x) ''win'' w = (r1, w1)"
    by (cases "update_boxer_stats (boxer_id x) ''win'' w")
  obtain r2 w2 where u2: "update_boxer_stats (boxer_id y) ''loss'' w1 = (r2, w2)"
    by (cases "update_boxer_stats (boxer_id y) ''loss'' w1")
  from ret u1 u2 obtain v1 v2 where r: "r1 = Inr v1" "r2 = Inr v2"
    by (cases r1; cases r2) (auto simp: record_result_def)
  have "has_row (boxer_id x) w" using u1 r(1) update_boxer_stats_Inr by blast
  moreover have "has_row (boxer_id y) w1" using u2 r(2) update_boxer_stats_Inr by blast
  then have "has_row (boxer_id y) w" using has_row_updated u1 r(1) by blast
  ultimately show "has_row (boxer_id x) w \<and> has_row (boxer_id y) w" by simp
qed

lemma ring_full_ring: "ring (full_ring rs) = [sample_boxer1, sample_boxer2]"
  by (simp add: full_ring_def world0_def)

lemma ring_uneven_ring: "ring (uneven_ring rs) = [extra_boxer, sample_boxer1]"
  by (simp add: uneven_ring_def world0_def)

lemma ring_tied_ring: "ring (tied_ring rs) = [sample_boxer1, sample_twin]"
  by (simp add: tied_ring_def world0_def)

lemma libm_sample_worlds:
  "libm_pow_e (full_ring rs) = cr_pow" "libm_pow_e (uneven_ring rs) = cr_pow"
  "libm_pow_e (tied_ring rs) = cr_pow"
  by (simp_all add: full_ring_def uneven_ring_def tied_ring_def world0_def)

lemma skill_sample_twin:
  "get_fighting_skill sample_twin = Inr (Fin (4957478027316429 / 2 ^ 42))"
  by (simp add: get_fighting_skill_def sample_twin_def) (simp add: float_of_int_def eval_rnd)

lemma logistic_uneven:
  "logistic_of_skills cr_pow (Fin (3550103143763149 / 2 ^ 42)) (Fin (4957478027316429 / 2 ^ 42))
     = Inr (Fin 1)"
  using delta_extra_sample1 normalized_delta_cr_one [of 320]
  by (simp add: logistic_of_skills_eq)

lemma logistic_tied:
  "logistic_of_skills pw (Fin (4957478027316429 / 2 ^ 42)) (Fin (4957478027316429 / 2 ^ 42))
     = Inr (Fin (1 / 2))"
  by (simp add: logistic_of_skills_def e_pow_def) (simp add: eval_rnd)

lemma delta_sample:
  "delta (Fin (4957478027316429 / 2 ^ 42)) (Fin (2556144632253645 / 2 ^ 41))
     = Fin (154811237190861 / 2 ^ 42)"
  by (simp add: delta_def fsub_def) (simp add: eval_rnd)

lemma logistic_sample:
  "\<exists>p. logistic_of_skills cr_pow (Fin (4957478027316429 / 2 ^ 42))
          (Fin (2556144632253645 / 2 ^ 41)) = Inr (Fin p) \<and> 1 / 2 \<le> p \<and> p \<le> 1"
  unfolding logistic_of_skills_eq delta_sample by (rule normalized_delta_cr) simp

text \<open>
  Claim C2. Let the ring hold \<open>a\<close> then \<open>b\<close>, in the order they entered, let their
  skills be the doubles \<open>s1\<close> and \<open>s2\<close>, let \<open>p\<close> be the double that the logistic
  transform \<open>1 / (1 + e ** -|s1 - s2|)\<close> of the absolute difference of the skills
  gives, and let the random source answer \<open>r\<close>. If \<open>r < p\<close>, \<open>fight\<close> takes \<open>a\<close> as
  the winner and \<open>b\<close> as the loser: it records the win for \<open>a\<close> first and then the loss
  for \<open>b\<close>, any name it returns is the name of \<open>a\<close>, and when both boxers have a row in
  the table it does return the name of \<open>a\<close>. Otherwise the same holds with \<open>b\<close> as the
  winner. Nothing is assumed about which boxer has the higher skill, nor about \<open>r\<close>
  lying in [0,1).
\<close>

theorem fight_winner_by_entry_order:
  assumes "ring w = [a, b]"
    and "get_fighting_skill a = Inr s1" and "get_fighting_skill b = Inr s2"
    and "logistic_of_skills (libm_pow_e w) s1 s2 = Inr p"
  shows
  "(flt (Fin r) p \<longrightarrow>
      fight (HttpText t (Some r)) w
        = record_result a b (w\<lparr>trace := trace w @ [RandomOrgRequest]\<rparr>)
      \<and> (\<forall>n. fst (fight (HttpText t (Some r)) w) = Inr n \<longrightarrow> n = name a)
      \<and> (has_row (boxer_id a) w \<and> has_row (boxer_id b) w \<longrightarrow>
           fst (fight (HttpText t (Some r)) w) = Inr (name a)
           \<and> boxers (snd (fight (HttpText t (Some r)) w))
               = update_rows (boxer_id b) ''loss''
                   (update_rows (boxer_id a) ''win'' (boxers w))))
   \<and> (\<not> flt (Fin r) p \<longrightarrow>
      fight (HttpText t (Some r)) w
        = record_result b a (w\<lparr>trace := trace w @ [RandomOrgRequest]\<rparr>)
      \<and> (\<forall>n. fst (fight (HttpText t (Some r)) w) = Inr n \<longrightarrow> n = name b)
      \<and> (has_row (boxer_id a) w \<and> has_row (boxer_id b) w \<longrightarrow>
           fst (fight (HttpText t (Some r)) w) = Inr (name b)
           \<and> boxers (snd (fight (HttpText t (Some r)) w))
               = update_rows (boxer_id a) ''loss''
                   (update_rows (boxer_id b) ''win'' (boxers w))))"
  by (auto simp: fight_random [OF assms] record_result_ok has_row_trace clear_ring_def
      dest: record_result_name)

theorem fight_winner_by_entry_order_witness:
  "ring (uneven_ring (sample_rows @ [extra_row])) = [extra_boxer, sample_boxer1]
   \<and> get_fighting_skill extra_boxer = Inr (Fin (3550103143763149 / 2 ^ 42))
   \<and> get_fighting_skill sample_boxer1 = Inr (Fin (4957478027316429 / 2 ^ 42))
   \<and> flt (Fin (3550103143763149 / 2 ^ 42)) (Fin (4957478027316429 / 2 ^ 42))
   \<and> logistic_of_skills (libm_pow_e (uneven_ring (sample_rows @ [extra_row])))
        (Fin (3550103143763149 / 2 ^ 42)) (Fin (4957478027316429 / 2 ^ 42)) = Inr (Fin 1)
   \<and> flt (Fin 0.99) (Fin 1)
   \<and> has_row (boxer_id extra_boxer) (uneven_ring (sample_rows @ [extra_row]))
   \<and> has_row (boxer_id sample_boxer1) (uneven_ring (sample_rows @ [extra_row]))
   \<and> fst (fight (HttpText ''0.99'' (Some 0.99)) (uneven_ring (sample_rows @ [extra_row])))
       = Inr ''Extra''
   \<and> ring (tied_ring sample_rows) = [sample_boxer1, sample_twin]
   \<and> get_fighting_skill sample_twin = Inr (Fin (4957478027316429 / 2 ^ 42))
   \<and> logistic_of_skills (libm_pow_e (tied_ring sample_rows))
        (Fin (4957478027316429 / 2 ^ 42)) (Fin (4957478027316429 / 2 ^ 42))
       = Inr (Fin (1 / 2))
   \<and> flt (Fin 0.25) (Fin (1 / 2))
   \<and> \<not> flt (Fin 0.5) (Fin (1 / 2))
   \<and> has_row (boxer_id sample_boxer1) (tied_ring sample_rows)
   \<and> has_row (boxer_id sample_twin) (tied_ring sample_rows)
   \<and> fst (fight (HttpText ''0.25'' (Some 0.25)) (tied_ring sample_rows)) = Inr ''Boxer 1''
   \<and> fst (fight (HttpText ''0.50'' (Some 0.5)) (tied_ring sample_rows)) = Inr ''Boxer 2''"
proof -
  let ?u = "uneven_ring (sample_rows @ [extra_row])"
  let ?t = "tied_ring sample_rows"
  have ru: "ring ?u = [extra_boxer, sample_boxer1]" by (rule ring_uneven_ring)
  have rt: "ring ?t = [sample_boxer1, sample_twin]" by (rule ring_tied_ring)
  have pu: "logistic_of_skills (libm_pow_e ?u)
        (Fin (3550103143763149 / 2 ^ 42)) (Fin (4957478027316429 / 2 ^ 42)) = Inr (Fin 1)"
    by (simp only: libm_sample_worlds logistic_uneven)
  have pt: "logistic_of_skills (libm_pow_e ?t)
        (Fin (4957478027316429 / 2 ^ 42)) (Fin (4957478027316429 / 2 ^ 42))
       = Inr (Fin (1 / 2))"
    by (rule logistic_tied)
  have hu: "has_row (boxer_id extra_boxer) ?u" "has_row (boxer_id sample_boxer1) ?u"
    by (simp_all add: has_row_def uneven_ring_def world0_def sample_rows_def extra_row_def
        extra_boxer_def sample_boxer1_def sqlite_int_def)
  have ht: "has_row (boxer_id sample_boxer1) ?t" "has_row (boxer_id sample_twin) ?t"
    by (simp_all add: has_row_def tied_ring_def world0_def sample_rows_def
        sample_twin_def sample_boxer1_def sqlite_int_def)
  have lt: "flt (Fin (3550103143763149 / 2 ^ 42)) (Fin (4957478027316429 / 2 ^ 42))"
    "flt (Fin 0.99) (Fin 1)" "flt (Fin 0.25) (Fin (1 / 2))" "\<not> flt (Fin 0.5) (Fin (1 / 2))"
    by simp_all
  have n: "name extra_boxer = ''Extra''" "name sample_boxer1 = ''Boxer 1''"
    "name sample_twin = ''Boxer 2''"
    by (simp_all add: extra_boxer_def sample_boxer1_def sample_twin_def)
  have first: "fst (fight (HttpText ''0.99'' (Some 0.99)) ?u) = Inr (name extra_boxer)"
    using fight_winner_by_entry_order [OF ru skill_extra_boxer skill_sample_boxer1 pu,
        where r = "0.99" and t = "''0.99''"] lt(2) hu
    by blast
  have second: "fst (fight (HttpText ''0.25'' (Some 0.25)) ?t) = Inr (name sample_boxer1)"
    using fight_winner_by_entry_order [OF rt skill_sample_boxer1 skill_sample_twin pt,
        where r = "0.25" and t = "''0.25''"] lt(3) ht
    by blast
  have third: "fst (fight (HttpText ''0.50'' (Some 0.5)) ?t) = Inr (name sample_twin)"
    using fight_winner_by_entry_order [OF rt skill_sample_boxer1 skill_sample_twin pt,
        where r = "0.5" and t = "''0.50''"] lt(4) ht
    by blast
  show ?thesis
    using ru rt skill_extra_boxer skill_sample_boxer1 skill_sample_twin pu pt lt hu ht
      first second third
    unfolding n by blast
qed

text \<open>
  Claim C1, as the spec states it, fails. Both sample boxers are in the ring, the
  table holds a row for the first one only and the random source answers 0.25, which
  is below the probability, since that is at least one half. The first boxer wins and
  his win is recorded; the update for the loser raises \<open>ValueError\<close> "Boxer with ID 2
  not found."; \<open>fight\<close> ends there, and the ring still holds both boxers.
\<close>

theorem fight_failed_update_keeps_ring:
  "length (ring (full_ring first_row_only)) = 2
   \<and> fst (fight (HttpText ''0.25'' (Some 0.25)) (full_ring first_row_only))
       = Inl (ValueError [Lit ''Boxer with ID '', Val (PyInt 2), Lit '' not found.''])
   \<and> ring (snd (fight (HttpText ''0.25'' (Some 0.25)) (full_ring first_row_only)))
       = [sample_boxer1, sample_boxer2]
   \<and> ring (snd (fight (HttpText ''0.25'' (Some 0.25)) (full_ring first_row_only))) \<noteq> []
   \<and> map wins (boxers (snd (fight (HttpText ''0.25'' (Some 0.25))
                                (full_ring first_row_only)))) = [1]"
proof -
  obtain p where p: "logistic_of_skills (libm_pow_e (full_ring first_row_only))
      (Fin (4957478027316429 / 2 ^ 42)) (Fin (2556144632253645 / 2 ^ 41)) = Inr (Fin p)"
    and half: "1 / 2 \<le> p"
    using logistic_sample unfolding libm_sample_worlds by blast
  have lt: "flt (Fin 0.25) (Fin p)" using half by simp
  have r1: "ring (full_ring first_row_only) = [sample_boxer1, sample_boxer2]"
    by (rule ring_full_ring)
  have f: "fight (HttpText ''0.25'' (Some 0.25)) (full_ring first_row_only)
      = record_result sample_boxer1 sample_boxer2
          (full_ring first_row_only
             \<lparr>trace := trace (full_ring first_row_only) @ [RandomOrgRequest]\<rparr>)"
    using fight_random [OF r1 skill_sample_boxer1 skill_sample_boxer2 p,
        where r = "0.25" and t = "''0.25''"] lt
    by simp
  show ?thesis
    unfolding f
    by (simp add: record_result_def update_boxer_stats_def update_rows_def full_ring_def
        world0_def first_row_only_def sample_boxer1_def sample_boxer2_def sqlite_int_def
        Let_def)
qed

text \<open>
  Claim C1, amended. Let the ring hold \<open>a\<close> then \<open>b\<close>. \<open>fight\<close> empties the ring
  exactly when it returns a name; whenever it raises, the ring still holds \<open>a\<close> and
  \<open>b\<close>. An exception of a skill or of the probability leaves \<open>fight\<close> with the world
  as it was. With the skills and the probability \<open>p\<close> computed:

  \<^item> if the random source fails, \<open>fight\<close> raises its exception, and the ring and the
    table are as before;
  \<^item> if it answers \<open>r\<close>, the winner \<open>x\<close> is \<open>a\<close> when \<open>r < p\<close> and \<open>b\<close> otherwise, the
    loser \<open>y\<close> is the other one, and
    \<^item> if the update of the winner fails, \<open>fight\<close> raises that exception; the ring
      holds \<open>a\<close> and \<open>b\<close> and the table is as before;
    \<^item> if it succeeds and the update of the loser fails, \<open>fight\<close> raises that
      exception; the ring holds \<open>a\<close> and \<open>b\<close>, and the table keeps the win recorded
      for the winner;
    \<^item> if both succeed, \<open>fight\<close> returns the name of the winner, the ring is empty and
      the table has the win and the loss recorded;
  \<^item> so, when the random source answers, \<open>fight\<close> returns a name if and only if both
    boxers have a row in the table that \<open>update_boxer_stats\<close> can reach.
\<close>

theorem fight_clears_ring_on_return:
  assumes "ring w = [a, b]"
  shows
  "(case fst (fight h w) of
      Inr n \<Rightarrow> ring (snd (fight h w)) = []
    | Inl e \<Rightarrow> ring (snd (fight h w)) = [a, b])
   \<and> (get_fighting_skill a = Inl e0 \<longrightarrow> fight h w = (Inl e0, w))
   \<and> (get_fighting_skill a = Inr s1 \<and> get_fighting_skill b = Inl e0 \<longrightarrow>
        fight h w = (Inl e0, w))
   \<and> (get_fighting_skill a = Inr s1 \<and> get_fighting_skill b = Inr s2
        \<and> logistic_of_skills (libm_pow_e w) s1 s2 = Inl e0 \<longrightarrow>
        fight h w = (Inl e0, w))
   \<and> (get_fighting_skill a = Inr s1 \<and> get_fighting_skill b = Inr s2
        \<and> logistic_of_skills (libm_pow_e w) s1 s2 = Inr p \<longrightarrow>
        (\<forall>e w1. get_random h w = (Inl e, w1) \<longrightarrow>
            fight h w = (Inl e, w1) \<and> ring w1 = [a, b] \<and> boxers w1 = boxers w)
        \<and> (\<forall>r w1 x y.
             get_random h w = (Inr r, w1)
             \<and> (x, y) = (if flt (Fin r) p then (a, b) else (b, a)) \<longrightarrow>
             (\<forall>e w2. update_boxer_stats (boxer_id x) ''win'' w1 = (Inl e, w2) \<longrightarrow>
                 fight h w = (Inl e, w2) \<and> ring w2 = [a, b] \<and> boxers w2 = boxers w)
             \<and> (\<forall>w2. update_boxer_stats (boxer_id x) ''win'' w1 = (Inr (), w2) \<longrightarrow>
                  (\<forall>e w3. update_boxer_stats (boxer_id y) ''loss'' w2 = (Inl e, w3) \<longrightarrow>
                      fight h w = (Inl e, w3) \<and> ring w3 = [a, b]
                      \<and> boxers w3 = update_rows (boxer_id x) ''win'' (boxers w))
                  \<and> (\<forall>w3. update_boxer_stats (boxer_id y) ''loss'' w2 = (Inr (), w3) \<longrightarrow>
                       fight h w = (Inr (name x), w3\<lparr>ring := []\<rparr>)
                       \<and> boxers w3 = update_rows (boxer_id y) ''loss''
                                       (update_rows (boxer_id x) ''win'' (boxers w))))
             \<and> ((\<exists>n. fst (fight h w) = Inr n)
                  = (has_row (boxer_id a) w \<and> has_row (boxer_id b) w))))"
proof -
  have c1: "(case fst (fight h w) of
      Inr n \<Rightarrow> ring (snd (fight h w)) = []
    | Inl e \<Rightarrow> ring (snd (fight h w)) = [a, b])"
    using fight_ring [of h w] assms by (auto split: sum.splits)
  have c2: "get_fighting_skill a = Inl e0 \<longrightarrow> fight h w = (Inl e0, w)"
    using assms by (simp add: fight_two)
  have c3: "get_fighting_skill a = Inr s1 \<and> get_fighting_skill b = Inl e0 \<longrightarrow>
        fight h w = (Inl e0, w)"
    using assms by (simp add: fight_two)
  have c4: "get_fighting_skill a = Inr s1 \<and> get_fighting_skill b = Inr s2
        \<and> logistic_of_skills (libm_pow_e w) s1 s2 = Inl e0 \<longrightarrow>
        fight h w = (Inl e0, w)"
    using assms by (simp add: fight_two)
  have c5: "(\<forall>e w1. get_random h w = (Inl e, w1) \<longrightarrow>
            fight h w = (Inl e, w1) \<and> ring w1 = [a, b] \<and> boxers w1 = boxers w)
        \<and> (\<forall>r w1 x y.
             get_random h w = (Inr r, w1)
             \<and> (x, y) = (if flt (Fin r) p then (a, b) else (b, a)) \<longrightarrow>
             (\<forall>e w2. update_boxer_stats (boxer_id x) ''win'' w1 = (Inl e, w2) \<longrightarrow>
                 fight h w = (Inl e, w2) \<and> ring w2 = [a, b] \<and> boxers w2 = boxers w)
             \<and> (\<forall>w2. update_boxer_stats (boxer_id x) ''win'' w1 = (Inr (), w2) \<longrightarrow>
                  (\<forall>e w3. update_boxer_stats (boxer_id y) ''loss'' w2 = (Inl e, w3) \<longrightarrow>
                      fight h w = (Inl e, w3) \<and> ring w3 = [a, b]
                      \<and> boxers w3 = update_rows (boxer_id x) ''win'' (boxers w))
                  \<and> (\<forall>w3. update_boxer_stats (boxer_id y) ''loss'' w2 = (Inr (), w3) \<longrightarrow>
                       fight h w = (Inr (name x), w3\<lparr>ring := []\<rparr>)
                       \<and> boxers w3 = update_rows (boxer_id y) ''loss''
                                       (update_rows (boxer_id x) ''win'' (boxers w))))
             \<and> ((\<exists>n. fst (fight h w) = Inr n)
                  = (has_row (boxer_id a) w \<and> has_row (boxer_id b) w)))"
    if sk: "get_fighting_skill a = Inr s1" "get_fighting_skill b = Inr s2"
      "logistic_of_skills (libm_pow_e w) s1 s2 = Inr p"
  proof (intro conjI allI impI)
    fix e w1
    assume g: "get_random h w = (Inl e, w1)"
    show "fight h w = (Inl e, w1)" using g by (simp add: fight_drawn [OF assms sk])
    show "ring w1 = [a, b]" using get_random_Inl [OF g] assms by simp
    show "boxers w1 = boxers w" using get_random_Inl [OF g] by simp
  next
    fix r w1 x y
    assume "get_random h w = (Inr r, w1)
        \<and> (x, y) = (if flt (Fin r) p then (a, b) else (b, a))"
    then have g: "get_random h w = (Inr r, w1)"
      and xy: "(x, y) = (if flt (Fin r) p then (a, b) else (b, a))"
      by simp_all
    have w1: "ring w1 = [a, b]" "boxers w1 = boxers w"
      and hr: "\<And>i. has_row i w1 = has_row i w"
      using get_random_Inr [OF g] assms by (simp_all add: has_row_trace)
    have f: "fight h w = record_result x y w1"
      using g xy by (simp add: fight_drawn [OF assms sk] split: if_splits)
    have "(\<exists>n. fst (fight h w) = Inr n) = (has_row (boxer_id x) w \<and> has_row (boxer_id y) w)"
      unfolding f record_result_returns hr ..
    then show "(\<exists>n. fst (fight h w) = Inr n)
        = (has_row (boxer_id a) w \<and> has_row (boxer_id b) w)"
      using xy by (auto split: if_splits)
    {
      fix e w2
      assume u: "update_boxer_stats (boxer_id x) ''win'' w1 = (Inl e, w2)"
      show "fight h w = (Inl e, w2)" using u record_result_steps [of x w1 y] f by simp
      show "ring w2 = [a, b]" using update_boxer_stats_Inl [OF u] w1 by simp
      show "boxers w2 = boxers w" using update_boxer_stats_Inl [OF u] w1 by simp
    }
    {
      fix w2 e w3
      assume u: "update_boxer_stats (boxer_id x) ''win'' w1 = (Inr (), w2)"
        and v: "update_boxer_stats (boxer_id y) ''loss'' w2 = (Inl e, w3)"
      show "fight h w = (Inl e, w3)" using u v record_result_steps [of x w1 y] f by simp
      show "ring w3 = [a, b]"
        using update_boxer_stats_Inl [OF v] update_boxer_stats_Inr [OF u] w1 by simp
      show "boxers w3 = update_rows (boxer_id x) ''win'' (boxers w)"
        using update_boxer_stats_Inl [OF v] update_boxer_stats_Inr [OF u] w1 by simp
    }
    {
      fix w2 w3
      assume u: "update_boxer_stats (boxer_id x) ''win'' w1 = (Inr (), w2)"
        and v: "update_boxer_stats (boxer_id y) ''loss'' w2 = (Inr (), w3)"
      have "ring w3 = [a, b]"
        using update_boxer_stats_Inr [OF v] update_boxer_stats_Inr [OF u] w1 by simp
      then have "clear_ring w3 = w3\<lparr>ring := []\<rparr>" by (simp add: clear_ring_def)
      then show "fight h w = (Inr (name x), w3\<lparr>ring := []\<rparr>)"
        using u v record_result_steps [of x w1 y] f by simp
      show "boxers w3 = update_rows (boxer_id y) ''loss''
          (update_rows (boxer_id x) ''win'' (boxers w))"
        using update_boxer_stats_Inr [OF v] update_boxer_stats_Inr [OF u] w1 by simp
    }
  qed
  show ?thesis using c1 c2 c3 c4 c5 by blast
qed

theorem fight_clears_ring_on_return_witness:
  "ring (uneven_ring sample_rows) = [extra_boxer, sample_boxer1]
   \<and> get_fighting_skill extra_boxer = Inr (Fin (3550103143763149 / 2 ^ 42))
   \<and> get_fighting_skill sample_boxer1 = Inr (Fin (4957478027316429 / 2 ^ 42))
   \<and> logistic_of_skills (libm_pow_e (uneven_ring sample_rows))
        (Fin (3550103143763149 / 2 ^ 42)) (Fin (4957478027316429 / 2 ^ 42)) = Inr (Fin 1)
   \<and> fst (fight HttpTimeout (uneven_ring sample_rows))
       = Inl (RuntimeError [Lit ''Request to random.org timed out.''])
   \<and> ring (snd (fight HttpTimeout (uneven_ring sample_rows))) = [extra_boxer, sample_boxer1]
   \<and> boxers (snd (fight HttpTimeout (uneven_ring sample_rows))) = sample_rows
   \<and> fst (fight (HttpText ''0.99'' (Some 0.99)) (uneven_ring sample_rows))
       = Inl (ValueError [Lit ''Boxer with ID '', Val (PyInt 3), Lit '' not found.''])
   \<and> ring (snd (fight (HttpText ''0.99'' (Some 0.99)) (uneven_ring sample_rows)))
       = [extra_boxer, sample_boxer1]
   \<and> boxers (snd (fight (HttpText ''0.99'' (Some 0.99)) (uneven_ring sample_rows)))
       = sample_rows
   \<and> fst (fight (HttpText ''0.99'' (Some 0.99)) (uneven_ring [extra_row]))
       = Inl (ValueError [Lit ''Boxer with ID '', Val (PyInt 1), Lit '' not found.''])
   \<and> ring (snd (fight (HttpText ''0.99'' (Some 0.99)) (uneven_ring [extra_row])))
       = [extra_boxer, sample_boxer1]
   \<and> boxers (snd (fight (HttpText ''0.99'' (Some 0.99)) (uneven_ring [extra_row])))
       = [extra_row\<lparr>fights := 1, wins := 1\<rparr>]
   \<and> has_row (boxer_id extra_boxer) (uneven_ring (sample_rows @ [extra_row]))
   \<and> has_row (boxer_id sample_boxer1) (uneven_ring (sample_rows @ [extra_row]))
   \<and> fst (fight (HttpText ''0.99'' (Some 0.99)) (uneven_ring (sample_rows @ [extra_row])))
       = Inr ''Extra''
   \<and> ring (snd (fight (HttpText ''0.99'' (Some 0.99))
                   (uneven_ring (sample_rows @ [extra_row])))) = []
   \<and> map fights (boxers (snd (fight (HttpText ''0.99'' (Some 0.99))
                                  (uneven_ring (sample_rows @ [extra_row]))))) = [1, 0, 1]
   \<and> map wins (boxers (snd (fight (HttpText ''0.99'' (Some 0.99))
                                (uneven_ring (sample_rows @ [extra_row]))))) = [0, 0, 1]
   \<and> get_fighting_skill (scenario_boxer\<lparr>weight := 10 ^ 400\<rparr>)
       = Inl (OverflowError [Lit ''int too large to convert to float''])
   \<and> fight (HttpText ''0.99'' (Some 0.99))
        (world0 sample_rows\<lparr>ring := [scenario_boxer\<lparr>weight := 10 ^ 400\<rparr>, sample_boxer1]\<rparr>)
       = (Inl (OverflowError [Lit ''int too large to convert to float'']),
          world0 sample_rows\<lparr>ring := [scenario_boxer\<lparr>weight := 10 ^ 400\<rparr>, sample_boxer1]\<rparr>)"
proof -
  let ?h = "HttpText ''0.99'' (Some 0.99)"
  let ?s3 = "Fin (3550103143763149 / 2 ^ 42)"
  let ?s1 = "Fin (4957478027316429 / 2 ^ 42)"
  have pu: "logistic_of_skills (libm_pow_e (uneven_ring rs)) ?s3 ?s1 = Inr (Fin 1)" for rs
    by (simp only: libm_sample_worlds logistic_uneven)
  note sk = skill_extra_boxer skill_sample_boxer1
  have xy: "(extra_boxer, sample_boxer1)
      = (if flt (Fin 0.99) (Fin 1) then (extra_boxer, sample_boxer1)
         else (sample_boxer1, extra_boxer))"
    by simp
  have g: "get_random ?h (uneven_ring rs)
      = (Inr 0.99, uneven_ring rs\<lparr>trace := [RandomOrgRequest]\<rparr>)" for rs
    by (simp add: get_random_def uneven_ring_def world0_def)
  (* The random source fails *)
  let ?a = "uneven_ring sample_rows"
  have ga: "get_random HttpTimeout ?a
      = (Inl (RuntimeError [Lit ''Request to random.org timed out.'']),
         ?a\<lparr>trace := [RandomOrgRequest]\<rparr>)"
    by (simp add: get_random_def uneven_ring_def world0_def)
  have fa: "fight HttpTimeout ?a
      = (Inl (RuntimeError [Lit ''Request to random.org timed out.'']),
         ?a\<lparr>trace := [RandomOrgRequest]\<rparr>)"
    using fight_clears_ring_on_return [OF ring_uneven_ring [of sample_rows], where h = HttpTimeout]
      sk pu ga
    by blast
  have a: "fst (fight HttpTimeout ?a)
        = Inl (RuntimeError [Lit ''Request to random.org timed out.''])"
    "ring (snd (fight HttpTimeout ?a)) = [extra_boxer, sample_boxer1]"
    "boxers (snd (fight HttpTimeout ?a)) = sample_rows"
    unfolding fa by (simp_all add: uneven_ring_def world0_def)
  (* The update of the winner fails *)
  have ub: "update_boxer_stats (boxer_id extra_boxer) ''win'' (?a\<lparr>trace := [RandomOrgRequest]\<rparr>)
      = (Inl (ValueError [Lit ''Boxer with ID '', Val (PyInt 3), Lit '' not found.'']),
         ?a\<lparr>trace := [RandomOrgRequest, DbConnection]\<rparr>)"
    by (simp add: update_boxer_stats_def uneven_ring_def world0_def sample_rows_def
        extra_boxer_def sqlite_int_def Let_def)
  have fb: "fight ?h ?a
      = (Inl (ValueError [Lit ''Boxer with ID '', Val (PyInt 3), Lit '' not found.'']),
         ?a\<lparr>trace := [RandomOrgRequest, DbConnection]\<rparr>)"
    using fight_clears_ring_on_return [OF ring_uneven_ring [of sample_rows], where h = ?h]
      sk pu g [of sample_rows] xy ub
    by blast
  have b: "fst (fight ?h ?a)
        = Inl (ValueError [Lit ''Boxer with ID '', Val (PyInt 3), Lit '' not found.''])"
    "ring (snd (fight ?h ?a)) = [extra_boxer, sample_boxer1]"
    "boxers (snd (fight ?h ?a)) = sample_rows"
    unfolding fb by (simp_all add: uneven_ring_def world0_def)
  (* The update of the loser fails *)
  let ?c = "uneven_ring [extra_row]"
  let ?c2 = "?c\<lparr>trace := [RandomOrgRequest, DbConnection],
                 boxers := [extra_row\<lparr>fights := 1, wins := 1\<rparr>]\<rparr>"
  have uc: "update_boxer_stats (boxer_id extra_boxer) ''win'' (?c\<lparr>trace := [RandomOrgRequest]\<rparr>)
      = (Inr (), ?c2)"
    by (simp add: update_boxer_stats_def update_rows_def uneven_ring_def world0_def
        extra_row_def extra_boxer_def sqlite_int_def Let_def)
  have vc: "update_boxer_stats (boxer_id sample_boxer1) ''loss'' ?c2
      = (Inl (ValueError [Lit ''Boxer with ID '', Val (PyInt 1), Lit '' not found.'']),
         ?c2\<lparr>trace := [RandomOrgRequest, DbConnection, DbConnection]\<rparr>)"
    by (simp add: update_boxer_stats_def uneven_ring_def world0_def
        extra_row_def sample_boxer1_def sqlite_int_def Let_def)
  have fc: "fight ?h ?c
      = (Inl (ValueError [Lit ''Boxer with ID '', Val (PyInt 1), Lit '' not found.'']),
         ?c2\<lparr>trace := [RandomOrgRequest, DbConnection, DbConnection]\<rparr>)"
    using fight_clears_ring_on_return [OF ring_uneven_ring [of "[extra_row]"], where h = ?h]
      sk pu g [of "[extra_row]"] xy uc vc
    by blast
  have c: "fst (fight ?h ?c)
        = Inl (ValueError [Lit ''Boxer with ID '', Val (PyInt 1), Lit '' not found.''])"
    "ring (snd (fight ?h ?c)) = [extra_boxer, sample_boxer1]"
    "boxers (snd (fight ?h ?c)) = [extra_row\<lparr>fights := 1, wins := 1\<rparr>]"
    unfolding fc by (simp_all add: uneven_ring_def world0_def)
  (* Both updates succeed *)
  let ?d = "uneven_ring (sample_rows @ [extra_row])"
  let ?d2 = "?d\<lparr>trace := [RandomOrgRequest, DbConnection],
                 boxers := update_rows 3 ''win'' (sample_rows @ [extra_row])\<rparr>"
  let ?d3 = "?d\<lparr>trace := [RandomOrgRequest, DbConnection, DbConnection],
                 boxers := update_rows 1 ''loss''
                             (update_rows 3 ''win'' (sample_rows @ [extra_row]))\<rparr>"
  have hd: "has_row (boxer_id extra_boxer) ?d" "has_row (boxer_id sample_boxer1) ?d"
    by (simp_all add: has_row_def uneven_ring_def world0_def sample_rows_def extra_row_def
        extra_boxer_def sample_boxer1_def sqlite_int_def)
  have ud: "update_boxer_stats (boxer_id extra_boxer) ''win'' (?d\<lparr>trace := [RandomOrgRequest]\<rparr>)
      = (Inr (), ?d2)"
    by (simp add: update_boxer_stats_def uneven_ring_def world0_def sample_rows_def
        extra_row_def extra_boxer_def sqlite_int_def Let_def)
  have vd: "update_boxer_stats (boxer_id sample_boxer1) ''loss'' ?d2 = (Inr (), ?d3)"
    by (simp add: update_boxer_stats_def update_rows_def uneven_ring_def world0_def
        sample_rows_def extra_row_def sample_boxer1_def sqlite_int_def Let_def)
  have fd: "fight ?h ?d = (Inr (name extra_boxer), ?d3\<lparr>ring := []\<rparr>)"
    using fight_clears_ring_on_return [OF ring_uneven_ring [of "sample_rows @ [extra_row]"],
        where h = ?h]
      sk pu g [of "sample_rows @ [extra_row]"] xy ud vd
    by blast
  have d: "fst (fight ?h ?d) = Inr ''Extra''"
    "ring (snd (fight ?h ?d)) = []"
    "map fights (boxers (snd (fight ?h ?d))) = [1, 0, 1]"
    "map wins (boxers (snd (fight ?h ?d))) = [0, 0, 1]"
    unfolding fd
    by (simp_all add: uneven_ring_def world0_def update_rows_def sample_rows_def
        extra_row_def extra_boxer_def)
  (* A skill raises *)
  let ?big = "scenario_boxer\<lparr>weight := 10 ^ 400\<rparr>"
  let ?e = "world0 sample_rows\<lparr>ring := [?big, sample_boxer1]\<rparr>"
  have se: "get_fighting_skill ?big
      = Inl (OverflowError [Lit ''int too large to convert to float''])"
    by (simp add: get_fighting_skill_def Let_def float_of_int_overflow scenario_boxer_def)
  have re: "ring ?e = [?big, sample_boxer1]" by (simp add: world0_def)
  have fe: "fight ?h ?e
      = (Inl (OverflowError [Lit ''int too large to convert to float'']), ?e)"
    using fight_clears_ring_on_return [OF re, where h = ?h] se by blast
  show ?thesis
    using ring_uneven_ring [of sample_rows] sk pu [of sample_rows] a b c hd d se fe
    by blast
qed

end
